theory Spec2Isabelle
  imports Complex_Main "HOL-Library.Word"
begin

unbundle bit_operations_syntax

section \<open>Conventions of the embedding\<close>

text \<open>
  The GDL 90 codec of \<^verbatim>\<open>gdl90py\<close> is embedded function by function.
  \<^item> A Python \<^verbatim>\<open>bytes\<close>/\<^verbatim>\<open>bytearray\<close> is a list of 8-bit words.
  \<^item> A \<^verbatim>\<open>bitstring.BitArray\<close> is a list of booleans, most significant bit first.
  \<^item> Python integers are \<open>int\<close>; masks such as \<^verbatim>\<open>& 0xFFFF\<close> are written out.
  \<^item> Python floats are exact rationals: IEEE rounding is not part of the model.
  \<^item> Every \<^verbatim>\<open>raise\<close>, and every exception of the Python runtime or of
    \<^verbatim>\<open>bitstring\<close> that a function can meet, is a value \<open>Inl e\<close>.
\<close>

type_synonym byte = "8 word"
type_synonym bitarray = "bool list"

datatype error =
    UnkownMessageID | InvalidMessageID | DataTooLong | InvalidCRC | MissingFlagBytes
  | InvalidCallsign | UnexpectedNegative | UplinkDataWrongSize | BadIntegerSize
  | IndexError | OverflowError | ZeroDivisionError | ValueError | UnicodeError
  | CreationError | InterpretError

definition bindE :: "error + 'a \<Rightarrow> ('a \<Rightarrow> error + 'b) \<Rightarrow> error + 'b" where
  "bindE m f = (case m of Inl e \<Rightarrow> Inl e | Inr v \<Rightarrow> f v)"

text \<open>Python list indexing \<^verbatim>\<open>xs[i]\<close>: a negative index counts from the end.\<close>

definition list_index :: "'a list \<Rightarrow> int \<Rightarrow> error + 'a" where
  "list_index xs i =
     (if 0 \<le> i \<and> i < int (length xs) then Inr (xs ! nat i)
      else if i < 0 \<and> - int (length xs) \<le> i then Inr (xs ! nat (int (length xs) + i))
      else Inl IndexError)"

section \<open>Bit arrays (the part of \<^verbatim>\<open>bitstring.BitArray\<close> the codec uses)\<close>

text \<open>The \<open>n\<close> low bits of \<open>v\<close>, most significant first (two's complement for negative \<open>v\<close>).\<close>

definition bits_of :: "nat \<Rightarrow> int \<Rightarrow> bitarray" where
  "bits_of n v = rev (map (bit v) [0..<n])"

text \<open>The unsigned value of a bit list read most significant bit first.\<close>

definition bits_val :: "bitarray \<Rightarrow> int" where
  "bits_val bs = horner_sum of_bool 2 (rev bs)"

text \<open>\<^verbatim>\<open>BitArray(uint=v, length=n)\<close>: \<^verbatim>\<open>bitstring\<close> refuses a value that does not fit.\<close>

definition BitArray_uint :: "int \<Rightarrow> nat \<Rightarrow> error + bitarray" where
  "BitArray_uint v n =
     (if n = 0 \<or> v < 0 \<or> 2 ^ n \<le> v then Inl CreationError else Inr (bits_of n v))"

text \<open>\<^verbatim>\<open>BitArray(int=v, length=n)\<close>.\<close>

definition BitArray_int :: "int \<Rightarrow> nat \<Rightarrow> error + bitarray" where
  "BitArray_int v n =
     (if n = 0 \<or> v < - (2 ^ (n - 1)) \<or> 2 ^ (n - 1) \<le> v then Inl CreationError
      else Inr (bits_of n v))"

text \<open>The properties \<^verbatim>\<open>.uint\<close>, \<^verbatim>\<open>.int\<close> and \<^verbatim>\<open>.bool\<close>.\<close>

definition get_uint :: "bitarray \<Rightarrow> error + int" where
  "get_uint bs = (if bs = [] then Inl InterpretError else Inr (bits_val bs))"

definition get_int :: "bitarray \<Rightarrow> error + int" where
  "get_int bs =
     (if bs = [] then Inl InterpretError
      else Inr (if hd bs then bits_val bs - 2 ^ length bs else bits_val bs))"

definition get_bool :: "bitarray \<Rightarrow> error + bool" where
  "get_bool bs = (if length bs = 1 then Inr (hd bs) else Inl InterpretError)"

text \<open>\<^verbatim>\<open>BitArray.cut(bits)\<close>: consecutive chunks, the last one possibly shorter.\<close>

function cut :: "nat \<Rightarrow> bitarray \<Rightarrow> bitarray list" where
  "cut bits b = (if bits = 0 \<or> b = [] then [] else take bits b # cut bits (drop bits b))"
  by pat_completeness auto
termination
  by (relation "measure (\<lambda>(n, b). length b)") auto

declare cut.simps [simp del]

definition byte_bits :: "byte \<Rightarrow> bitarray" where
  "byte_bits b = bits_of 8 (uint b)"

definition bits_byte :: "bitarray \<Rightarrow> byte" where
  "bits_byte bs = word_of_int (bits_val bs)"

text \<open>\<^verbatim>\<open>BitArray(bytes_)\<close>, \<^verbatim>\<open>.bytes\<close> and \<^verbatim>\<open>.tobytes()\<close> (which pads with zero bits).\<close>

definition BitArray_bytes :: "byte list \<Rightarrow> bitarray" where
  "BitArray_bytes bs = concat (map byte_bits bs)"

definition get_bytes :: "bitarray \<Rightarrow> error + byte list" where
  "get_bytes b =
     (if length b mod 8 = 0 then Inr (map bits_byte (cut 8 b)) else Inl InterpretError)"

definition tobytes :: "bitarray \<Rightarrow> byte list" where
  "tobytes b = map bits_byte (cut 8 (b @ replicate ((8 - length b mod 8) mod 8) False))"

subsection \<open>\<^verbatim>\<open>utils/bitarray.py\<close>\<close>

definition pop_bits :: "bitarray \<Rightarrow> nat \<Rightarrow> bitarray \<times> bitarray" where
  "pop_bits bitarray bits = (take bits bitarray, drop bits bitarray)"

definition lsb :: "bitarray \<Rightarrow> bitarray" where
  "lsb bitarray = concat (map rev (cut 8 bitarray))"

definition lsb_bytes :: "byte list \<Rightarrow> error + byte list" where
  "lsb_bytes bytes = get_bytes (lsb (BitArray_bytes bytes))"

section \<open>Framing: \<^verbatim>\<open>utils/gdl90.py\<close>\<close>

definition FLAG_BYTE :: byte where "FLAG_BYTE = 0x7E"
definition CONTROL_ESCAPE_BYTE :: byte where "CONTROL_ESCAPE_BYTE = 0x7D"
definition ESCAPE_XOR_BYTE :: byte where "ESCAPE_XOR_BYTE = 0x20"
definition MASK_16_BIT :: int where "MASK_16_BIT = 0xFFFF"
definition FOREFLIGHT_MESSAGE_ID :: nat where "FOREFLIGHT_MESSAGE_ID = 0x65"

text \<open>The inner loop of \<^verbatim>\<open>crc_table\<close>: \<^verbatim>\<open>for _ in range(8)\<close>.\<close>

fun crc_table_inner :: "nat \<Rightarrow> int \<Rightarrow> int" where
  "crc_table_inner 0 crc = crc"
| "crc_table_inner (Suc n) crc =
     crc_table_inner n
       (((push_bit 1 crc) AND MASK_16_BIT) XOR (if crc AND 0x8000 \<noteq> 0 then 0x1021 else 0))"

definition crc_table :: "int list" where
  "crc_table =
     map (\<lambda>i. crc_table_inner 8 ((push_bit 8 (int i)) AND MASK_16_BIT)) [0..<256]"

fun compute_crc_loop :: "int \<Rightarrow> byte list \<Rightarrow> error + int" where
  "compute_crc_loop crc [] = Inr crc"
| "compute_crc_loop crc (c # data) =
     (let m = (push_bit 8 crc) AND MASK_16_BIT
      in bindE (list_index crc_table (drop_bit 8 crc))
           (\<lambda>t. compute_crc_loop (t XOR m XOR uint c) data))"

text \<open>\<^verbatim>\<open>crc.to_bytes(length=2, byteorder="little")\<close>.\<close>

definition to_bytes_2_little :: "int \<Rightarrow> error + byte list" where
  "to_bytes_2_little v =
     (if 0 \<le> v \<and> v < 2 ^ 16 then Inr [word_of_int v, word_of_int (drop_bit 8 v)]
      else Inl OverflowError)"

definition compute_crc :: "byte list \<Rightarrow> error + byte list" where
  "compute_crc data = bindE (compute_crc_loop 0 data) to_bytes_2_little"

definition check_crc :: "byte list \<Rightarrow> byte list \<Rightarrow> error + unit" where
  "check_crc data crc =
     bindE (compute_crc data)
       (\<lambda>computed_crc. if computed_crc \<noteq> crc then Inl InvalidCRC else Inr ())"

fun escape :: "byte list \<Rightarrow> byte list" where
  "escape [] = []"
| "escape (item # data) =
     (if item \<in> {FLAG_BYTE, CONTROL_ESCAPE_BYTE}
      then [CONTROL_ESCAPE_BYTE, item XOR ESCAPE_XOR_BYTE] else [item]) @ escape data"

text \<open>
  The \<^verbatim>\<open>while CONTROL_ESCAPE_BYTE in data\<close> loop of \<^verbatim>\<open>unescape\<close>, with
  \<^verbatim>\<open>escaped_data\<close> as accumulator. Reading past the end raises \<^verbatim>\<open>IndexError\<close>.
\<close>

function unescape_loop :: "byte list \<Rightarrow> byte list \<Rightarrow> error + byte list" where
  "unescape_loop escaped_data data =
     (if CONTROL_ESCAPE_BYTE \<in> set data then
        (let escape_index = length (takeWhile (\<lambda>b. b \<noteq> CONTROL_ESCAPE_BYTE) data);
             escaped_data1 = escaped_data @ take escape_index data
         in if escape_index + 1 < length data
            then unescape_loop
                   (escaped_data1 @ [(data ! (escape_index + 1)) XOR ESCAPE_XOR_BYTE])
                   (drop (escape_index + 2) data)
            else Inl IndexError)
      else Inr (escaped_data @ data))"
  by pat_completeness auto
termination
proof (relation "measure (\<lambda>(a, d). length d)")
  show "wf (measure (\<lambda>(a, d). length d))" by simp
next
  fix escaped_data data :: "byte list" and x xa
  assume "CONTROL_ESCAPE_BYTE \<in> set data"
  then have "data \<noteq> []" by auto
  then show "((xa @ [data ! (x + 1) XOR ESCAPE_XOR_BYTE], drop (x + 2) data),
              escaped_data, data) \<in> measure (\<lambda>(a, d). length d)"
    by simp
qed

declare unescape_loop.simps [simp del]

definition unescape :: "byte list \<Rightarrow> error + byte list" where
  "unescape data = unescape_loop [] data"

text \<open>\<^verbatim>\<open>message_id.to_bytes()\<close>: one byte, \<^verbatim>\<open>OverflowError\<close> from 256 on.\<close>

definition to_bytes_1 :: "nat \<Rightarrow> error + byte list" where
  "to_bytes_1 v = (if v < 256 then Inr [of_nat v] else Inl OverflowError)"

fun message_id_bytes_loop :: "byte list \<Rightarrow> nat list \<Rightarrow> error + byte list" where
  "message_id_bytes_loop acc [] = Inr acc"
| "message_id_bytes_loop acc (message_id # ids) =
     bindE (to_bytes_1 message_id) (\<lambda>b. message_id_bytes_loop (acc @ b) ids)"

definition build :: "nat list \<Rightarrow> bitarray \<Rightarrow> bool \<Rightarrow> error + byte list" where
  "build message_ids data outgoing_lsb =
     bindE (message_id_bytes_loop [] message_ids) (\<lambda>message_id_bytes.
       let message_id_data = message_id_bytes @ tobytes data
       in bindE (compute_crc message_id_data) (\<lambda>crc.
            let message_id_data_crc = message_id_data @ crc;
                message_id_data_crc_escaped =
                  [FLAG_BYTE] @ escape message_id_data_crc @ [FLAG_BYTE]
            in if outgoing_lsb then lsb_bytes message_id_data_crc_escaped
               else Inr message_id_data_crc_escaped))"

definition deconstruct :: "byte list \<Rightarrow> bool \<Rightarrow> error + (nat list \<times> bitarray)" where
  "deconstruct data incoming_msb =
     (if data = [] then Inl IndexError
      else if hd data \<noteq> FLAG_BYTE \<and> last data \<noteq> FLAG_BYTE then Inl MissingFlagBytes
      else
        bindE (if \<not> incoming_msb then lsb_bytes (butlast (tl data))
               else Inr (butlast (tl data))) (\<lambda>message_without_flags.
        bindE (unescape message_without_flags) (\<lambda>unescaped_message.
          let received_crc = drop (length unescaped_message - 2) unescaped_message;
              message_id_data = take (length unescaped_message - 2) unescaped_message
          in bindE (check_crc message_id_data received_crc) (\<lambda>_.
               (case message_id_data of
                  [] \<Rightarrow> Inl IndexError
                | message_id # rest \<Rightarrow>
                    if unat message_id = FOREFLIGHT_MESSAGE_ID then
                      (case rest of
                         [] \<Rightarrow> Inl IndexError
                       | sub_id # message_data \<Rightarrow>
                           Inr ([unat message_id, unat sub_id], BitArray_bytes message_data))
                    else Inr ([unat message_id], BitArray_bytes rest))))))"

section \<open>Reference definitions for the checksum\<close>

text \<open>
  CRC-16-CCITT on 16-bit words: one shift step of the division by the polynomial
  \<open>0x1021\<close>, most significant bit first (no reflection), and the table entry for an
  index as eight steps from the index in the high byte.
\<close>

definition poly_step :: "16 word \<Rightarrow> 16 word" where
  "poly_step w = (if bit w 15 then push_bit 1 w XOR 0x1021 else push_bit 1 w)"

fun poly_steps :: "nat \<Rightarrow> 16 word \<Rightarrow> 16 word" where
  "poly_steps 0 w = w"
| "poly_steps (Suc n) w = poly_steps n (poly_step w)"

definition crc16_entry :: "16 word \<Rightarrow> 16 word" where
  "crc16_entry i = poly_steps 8 (push_bit 8 i)"

text \<open>
  The recurrence in the words of the specification: the table is indexed by
  \<^verbatim>\<open>(crc >> 8) XOR byte\<close> and the entry is combined with \<^verbatim>\<open>(crc << 8) & 0xFFFF\<close>.
\<close>

definition spec_crc_step :: "16 word \<Rightarrow> byte \<Rightarrow> 16 word" where
  "spec_crc_step crc c = crc16_entry (drop_bit 8 crc XOR ucast c) XOR push_bit 8 crc"

text \<open>
  The recurrence that \<^verbatim>\<open>compute_crc\<close> runs: the table is indexed by
  \<^verbatim>\<open>crc >> 8\<close> alone, and the byte is combined into the result.
\<close>

definition gdl90_crc_step :: "16 word \<Rightarrow> byte \<Rightarrow> 16 word" where
  "gdl90_crc_step crc c = crc16_entry (drop_bit 8 crc) XOR push_bit 8 crc XOR ucast c"

text \<open>A 16-bit value emitted little-endian: low byte first.\<close>

definition little_endian_16 :: "16 word \<Rightarrow> byte list" where
  "little_endian_16 w = [ucast w, ucast (drop_bit 8 w)]"

text \<open>The per-byte bit reversal that \<^verbatim>\<open>lsb_bytes\<close> amounts to.\<close>

definition rev_byte :: "byte \<Rightarrow> byte" where
  "rev_byte b = bits_byte (rev (byte_bits b))"

text \<open>
  What \<^verbatim>\<open>build\<close> returns for a payload (message ids and body bytes): the payload and
  its checksum escaped between two flag bytes, every byte reversed in LSB mode.
\<close>

definition frame_of :: "bool \<Rightarrow> byte list \<Rightarrow> byte list" where
  "frame_of outgoing_lsb payload =
     (let framed = [FLAG_BYTE]
            @ escape (payload @ little_endian_16 (foldl gdl90_crc_step 0 payload))
            @ [FLAG_BYTE]
      in if outgoing_lsb then map rev_byte framed else framed)"

section \<open>Field codec: \<^verbatim>\<open>messages/_base_message.py\<close>\<close>

text \<open>
  Python's true division and \<^verbatim>\<open>int()\<close> on a float (truncation towards zero), on
  exact rationals.
\<close>

definition py_truediv :: "rat \<Rightarrow> rat \<Rightarrow> error + rat" where
  "py_truediv a b = (if b = 0 then Inl ZeroDivisionError else Inr (a / b))"

definition py_int :: "rat \<Rightarrow> int" where
  "py_int x = (if x < 0 then - \<lfloor>- x\<rfloor> else \<lfloor>x\<rfloor>)"

definition clean_data :: "nat list \<Rightarrow> byte list \<Rightarrow> bool \<Rightarrow> error + bitarray" where
  "clean_data MESSAGE_IDS data incoming_msb =
     bindE (deconstruct data incoming_msb) (\<lambda>(message_ids, bits).
       if message_ids \<noteq> MESSAGE_IDS then Inl InvalidMessageID else Inr bits)"

definition serialize_uint :: "int \<Rightarrow> nat \<Rightarrow> bool \<Rightarrow> error + bitarray" where
  "serialize_uint v bits constrain =
     (if v < 0 then Inl UnexpectedNegative
      else if constrain then BitArray_uint (min v (2 ^ bits - 1)) bits
      else if v > 2 ^ bits - 1 then Inl BadIntegerSize
      else BitArray_uint v bits)"

definition deserialize_uint :: "bitarray \<Rightarrow> error + int" where
  "deserialize_uint bitarray = get_uint bitarray"

definition serialize_int :: "int \<Rightarrow> nat \<Rightarrow> bool \<Rightarrow> error + bitarray" where
  "serialize_int v bits constrain =
     (if constrain then
        BitArray_int (max (min v (2 ^ (bits - 1) - 1)) (0 - 2 ^ (bits - 1))) bits
      else if v > 2 ^ (bits - 1) - 1 then Inl BadIntegerSize
      else if v < 0 - 2 ^ (bits - 1) then Inl BadIntegerSize
      else BitArray_int v bits)"

definition deserialize_int :: "bitarray \<Rightarrow> error + int" where
  "deserialize_int bitarray = get_int bitarray"

definition serialize_resolution_uint :: "int \<Rightarrow> rat \<Rightarrow> nat \<Rightarrow> error + bitarray" where
  "serialize_resolution_uint v resolution bits =
     bindE (py_truediv (of_int v) resolution) (\<lambda>q. serialize_uint (py_int q) bits True)"

definition deserialize_resolution_uint :: "bitarray \<Rightarrow> rat \<Rightarrow> error + int" where
  "deserialize_resolution_uint bitarray resolution =
     bindE (deserialize_uint bitarray) (\<lambda>u. Inr (py_int (of_int u * resolution)))"

definition serialize_resolution_int :: "rat \<Rightarrow> rat \<Rightarrow> nat \<Rightarrow> error + bitarray" where
  "serialize_resolution_int v resolution bits =
     bindE (py_truediv v resolution) (\<lambda>q. serialize_int (py_int q) bits True)"

definition deserialize_resolution_float :: "bitarray \<Rightarrow> rat \<Rightarrow> error + rat" where
  "deserialize_resolution_float bitarray resolution =
     bindE (deserialize_int bitarray) (\<lambda>i. Inr (of_int i * resolution))"

definition deserialize_resolution_int :: "bitarray \<Rightarrow> rat \<Rightarrow> error + int" where
  "deserialize_resolution_int bitarray resolution =
     bindE (deserialize_resolution_float bitarray resolution) (\<lambda>f. Inr (py_int f))"

definition serialize_resolution_float :: "rat \<Rightarrow> rat \<Rightarrow> nat \<Rightarrow> error + bitarray" where
  "serialize_resolution_float v resolution bits = serialize_resolution_int v resolution bits"

definition serialize_resolution_offset_uint ::
  "int \<Rightarrow> int \<Rightarrow> rat \<Rightarrow> nat \<Rightarrow> error + bitarray" where
  "serialize_resolution_offset_uint v offset resolution bits =
     serialize_resolution_uint (v + offset) resolution bits"

definition deserialize_resolution_offset_uint :: "bitarray \<Rightarrow> int \<Rightarrow> rat \<Rightarrow> error + int" where
  "deserialize_resolution_offset_uint bitarray offset resolution =
     bindE (deserialize_resolution_uint bitarray resolution) (\<lambda>v. Inr (v - offset))"

definition serialize_bool :: "bool \<Rightarrow> error + bitarray" where
  "serialize_bool v = serialize_uint (if v then 1 else 0) 1 True"

definition deserialize_bool :: "bitarray \<Rightarrow> error + bool" where
  "deserialize_bool bitarray = get_bool bitarray"

section \<open>Height Above Terrain: \<^verbatim>\<open>messages/height_above_terrain.py\<close>\<close>

record height_above_terrain_message =
  height_above_terrain :: "int option"

definition HEIGHT_ABOVE_TERRAIN_BITS :: nat where "HEIGHT_ABOVE_TERRAIN_BITS = 16"
definition HEIGHT_ABOVE_TERRAIN_INVALID_VALUE :: int where
  "HEIGHT_ABOVE_TERRAIN_INVALID_VALUE = 0x8000"

definition serialize_height_above_terrain ::
  "height_above_terrain_message \<Rightarrow> error + bitarray" where
  "serialize_height_above_terrain self =
     (case height_above_terrain self of
        None \<Rightarrow>
          serialize_uint HEIGHT_ABOVE_TERRAIN_INVALID_VALUE HEIGHT_ABOVE_TERRAIN_BITS True
      | Some h \<Rightarrow> serialize_int h HEIGHT_ABOVE_TERRAIN_BITS True)"

definition deserialize_height_above_terrain :: "bitarray \<Rightarrow> error + int option" where
  "deserialize_height_above_terrain bitarray =
     bindE (get_uint bitarray) (\<lambda>u.
       if u = HEIGHT_ABOVE_TERRAIN_INVALID_VALUE then Inr None
       else bindE (deserialize_int bitarray) (\<lambda>i. Inr (Some i)))"

definition HeightAboveTerrain_serialize ::
  "height_above_terrain_message \<Rightarrow> bool \<Rightarrow> error + byte list" where
  "HeightAboveTerrain_serialize self outgoing_lsb =
     bindE (serialize_height_above_terrain self) (\<lambda>all_data. build [9] all_data outgoing_lsb)"

definition HeightAboveTerrain_deserialize_bits ::
  "bitarray \<Rightarrow> error + height_above_terrain_message" where
  "HeightAboveTerrain_deserialize_bits data0 =
     (let (b, data) = pop_bits data0 HEIGHT_ABOVE_TERRAIN_BITS
      in bindE (deserialize_height_above_terrain b) (\<lambda>h.
           if length data \<noteq> 0 then Inl DataTooLong
           else Inr \<lparr>height_above_terrain = h\<rparr>))"

definition HeightAboveTerrain_deserialize ::
  "byte list \<Rightarrow> bool \<Rightarrow> error + height_above_terrain_message" where
  "HeightAboveTerrain_deserialize data incoming_msb =
     bindE (clean_data [9] data incoming_msb) HeightAboveTerrain_deserialize_bits"

section \<open>Strings\<close>

text \<open>
  A Python \<^verbatim>\<open>str\<close> is a list of characters with code points below 256. The methods
  \<^verbatim>\<open>isspace\<close>, \<^verbatim>\<open>upper\<close> and \<^verbatim>\<open>isalnum\<close> are embedded on ASCII code points, where
  they do not depend on the Unicode tables; statements about them are made for ASCII strings.
\<close>

datatype encoding = ascii | utf_8

definition is_ascii :: "string \<Rightarrow> bool" where
  "is_ascii s = list_all (\<lambda>c. (of_char c :: nat) < 128) s"

definition isspace_char :: "char \<Rightarrow> bool" where
  "isspace_char c =
     (let n = (of_char c :: nat) in (9 \<le> n \<and> n \<le> 13) \<or> (28 \<le> n \<and> n \<le> 32))"

definition isalnum_char :: "char \<Rightarrow> bool" where
  "isalnum_char c =
     (let n = (of_char c :: nat)
      in (48 \<le> n \<and> n \<le> 57) \<or> (65 \<le> n \<and> n \<le> 90) \<or> (97 \<le> n \<and> n \<le> 122))"

definition upper_char :: "char \<Rightarrow> char" where
  "upper_char c =
     (let n = (of_char c :: nat) in if 97 \<le> n \<and> n \<le> 122 then char_of (n - 32) else c)"

definition rstrip :: "string \<Rightarrow> string" where
  "rstrip s = rev (dropWhile isspace_char (rev s))"

definition strip :: "string \<Rightarrow> string" where
  "strip s = rstrip (dropWhile isspace_char s)"

definition upper :: "string \<Rightarrow> string" where
  "upper s = map upper_char s"

definition isalnum :: "string \<Rightarrow> bool" where
  "isalnum s = (s \<noteq> [] \<and> list_all isalnum_char s)"

definition ljust :: "string \<Rightarrow> nat \<Rightarrow> string" where
  "ljust s width = s @ replicate (width - length s) (CHR '' '')"

definition encode_ascii :: "string \<Rightarrow> error + byte list" where
  "encode_ascii s = (if is_ascii s then Inr (map of_char s) else Inl UnicodeError)"

definition encode_utf_8 :: "string \<Rightarrow> byte list" where
  "encode_utf_8 s =
     concat (map (\<lambda>c. let n = (of_char c :: nat)
                       in if n < 128 then [of_nat n]
                          else [of_nat (192 + n div 64), of_nat (128 + n mod 64)]) s)"

definition decode_ascii :: "byte list \<Rightarrow> error + string" where
  "decode_ascii bs =
     (if list_all (\<lambda>b. b < 128) bs then Inr (map (\<lambda>b. char_of (unat b)) bs)
      else Inl UnicodeError)"

text \<open>\<^verbatim>\<open>BitArray(bytes=b, length=n)\<close>: the first \<open>n\<close> bits of the bytes.\<close>

definition BitArray_bytes_length :: "byte list \<Rightarrow> nat \<Rightarrow> error + bitarray" where
  "BitArray_bytes_length bs n =
     (if 8 * length bs < n then Inl CreationError else Inr (take n (BitArray_bytes bs)))"

definition serialize_str :: "string \<Rightarrow> nat \<Rightarrow> encoding \<Rightarrow> error + bitarray" where
  "serialize_str v bits enc =
     (let num_bytes = bits div 8;
          v1 = ljust v num_bytes;
          v2 = take num_bytes v1
      in bindE (case enc of ascii \<Rightarrow> encode_ascii v2 | utf_8 \<Rightarrow> Inr (encode_utf_8 v2))
           (\<lambda>bs. BitArray_bytes_length bs bits))"

text \<open>\<^verbatim>\<open>_deserialize_str\<close> for the encoding \<^verbatim>\<open>"ascii"\<close>.\<close>

definition deserialize_str_ascii :: "bitarray \<Rightarrow> error + string" where
  "deserialize_str_ascii bitarray = bindE (get_bytes bitarray) decode_ascii"

definition serialize_enum :: "int \<Rightarrow> nat \<Rightarrow> error + bitarray" where
  "serialize_enum v len = serialize_uint v len True"

definition deserialize_enum :: "bitarray \<Rightarrow> (int \<Rightarrow> error + 'e) \<Rightarrow> error + 'e" where
  "deserialize_enum bitarray enum = bindE (deserialize_uint bitarray) enum"

section \<open>Enumerations: \<^verbatim>\<open>enums.py\<close>\<close>

datatype TrackType =
    TrackType_invalid
  | TrackType_true_track_angle
  | TrackType_magnetic_heading
  | TrackType_true_heading

fun TrackType_value :: "TrackType \<Rightarrow> int" where
  "TrackType_value TrackType_invalid = 0"
| "TrackType_value TrackType_true_track_angle = 1"
| "TrackType_value TrackType_magnetic_heading = 2"
| "TrackType_value TrackType_true_heading = 3"

definition TrackType_of_int :: "int \<Rightarrow> error + TrackType" where
  "TrackType_of_int v =
     (if v = 0 then Inr TrackType_invalid
      else if v = 1 then Inr TrackType_true_track_angle
      else if v = 2 then Inr TrackType_magnetic_heading
      else if v = 3 then Inr TrackType_true_heading
      else Inl ValueError)"

datatype Integrity =
    Integrity_unknown
  | Integrity_less_than_20_nm
  | Integrity_less_than_8_nm
  | Integrity_less_than_4_nm
  | Integrity_less_than_2_nm
  | Integrity_less_than_1_nm
  | Integrity_less_than_0_6_nm
  | Integrity_less_than_0_2_nm
  | Integrity_less_than_0_1_nm
  | Integrity_less_than_75_m_hpl_and_112_m_vpl
  | Integrity_less_than_25_m_hpl_and_37_5_m_vpl
  | Integrity_less_than_7_5_m_hpl_and_11_m_vpl

fun Integrity_value :: "Integrity \<Rightarrow> int" where
  "Integrity_value Integrity_unknown = 0"
| "Integrity_value Integrity_less_than_20_nm = 1"
| "Integrity_value Integrity_less_than_8_nm = 2"
| "Integrity_value Integrity_less_than_4_nm = 3"
| "Integrity_value Integrity_less_than_2_nm = 4"
| "Integrity_value Integrity_less_than_1_nm = 5"
| "Integrity_value Integrity_less_than_0_6_nm = 6"
| "Integrity_value Integrity_less_than_0_2_nm = 7"
| "Integrity_value Integrity_less_than_0_1_nm = 8"
| "Integrity_value Integrity_less_than_75_m_hpl_and_112_m_vpl = 9"
| "Integrity_value Integrity_less_than_25_m_hpl_and_37_5_m_vpl = 10"
| "Integrity_value Integrity_less_than_7_5_m_hpl_and_11_m_vpl = 11"

definition Integrity_of_int :: "int \<Rightarrow> error + Integrity" where
  "Integrity_of_int v =
     (if v = 0 then Inr Integrity_unknown
      else if v = 1 then Inr Integrity_less_than_20_nm
      else if v = 2 then Inr Integrity_less_than_8_nm
      else if v = 3 then Inr Integrity_less_than_4_nm
      else if v = 4 then Inr Integrity_less_than_2_nm
      else if v = 5 then Inr Integrity_less_than_1_nm
      else if v = 6 then Inr Integrity_less_than_0_6_nm
      else if v = 7 then Inr Integrity_less_than_0_2_nm
      else if v = 8 then Inr Integrity_less_than_0_1_nm
      else if v = 9 then Inr Integrity_less_than_75_m_hpl_and_112_m_vpl
      else if v = 10 then Inr Integrity_less_than_25_m_hpl_and_37_5_m_vpl
      else if v = 11 then Inr Integrity_less_than_7_5_m_hpl_and_11_m_vpl
      else Inl ValueError)"

datatype Accuracy =
    Accuracy_unknown
  | Accuracy_less_than_10_nm
  | Accuracy_less_than_4_nm
  | Accuracy_less_than_2_nm
  | Accuracy_less_than_1_nm
  | Accuracy_less_than_0_5_nm
  | Accuracy_less_than_0_3_nm
  | Accuracy_less_than_0_1_nm
  | Accuracy_less_than_0_05_nm
  | Accuracy_less_than_30_m_hfom_and_45_m_vfom
  | Accuracy_less_than_10_m_hfom_and_15_m_vfom
  | Accuracy_less_than_3_m_hfom_and_4_m_vfom

fun Accuracy_value :: "Accuracy \<Rightarrow> int" where
  "Accuracy_value Accuracy_unknown = 0"
| "Accuracy_value Accuracy_less_than_10_nm = 1"
| "Accuracy_value Accuracy_less_than_4_nm = 2"
| "Accuracy_value Accuracy_less_than_2_nm = 3"
| "Accuracy_value Accuracy_less_than_1_nm = 4"
| "Accuracy_value Accuracy_less_than_0_5_nm = 5"
| "Accuracy_value Accuracy_less_than_0_3_nm = 6"
| "Accuracy_value Accuracy_less_than_0_1_nm = 7"
| "Accuracy_value Accuracy_less_than_0_05_nm = 8"
| "Accuracy_value Accuracy_less_than_30_m_hfom_and_45_m_vfom = 9"
| "Accuracy_value Accuracy_less_than_10_m_hfom_and_15_m_vfom = 10"
| "Accuracy_value Accuracy_less_than_3_m_hfom_and_4_m_vfom = 11"

definition Accuracy_of_int :: "int \<Rightarrow> error + Accuracy" where
  "Accuracy_of_int v =
     (if v = 0 then Inr Accuracy_unknown
      else if v = 1 then Inr Accuracy_less_than_10_nm
      else if v = 2 then Inr Accuracy_less_than_4_nm
      else if v = 3 then Inr Accuracy_less_than_2_nm
      else if v = 4 then Inr Accuracy_less_than_1_nm
      else if v = 5 then Inr Accuracy_less_than_0_5_nm
      else if v = 6 then Inr Accuracy_less_than_0_3_nm
      else if v = 7 then Inr Accuracy_less_than_0_1_nm
      else if v = 8 then Inr Accuracy_less_than_0_05_nm
      else if v = 9 then Inr Accuracy_less_than_30_m_hfom_and_45_m_vfom
      else if v = 10 then Inr Accuracy_less_than_10_m_hfom_and_15_m_vfom
      else if v = 11 then Inr Accuracy_less_than_3_m_hfom_and_4_m_vfom
      else Inl ValueError)"

datatype AddressType =
    AddressType_ads_b_icao
  | AddressType_ads_b_self_assigned
  | AddressType_tis_b_icao
  | AddressType_tis_b_track_file_id
  | AddressType_surface_vehicle
  | AddressType_ground_station_beacon

fun AddressType_value :: "AddressType \<Rightarrow> int" where
  "AddressType_value AddressType_ads_b_icao = 0"
| "AddressType_value AddressType_ads_b_self_assigned = 1"
| "AddressType_value AddressType_tis_b_icao = 2"
| "AddressType_value AddressType_tis_b_track_file_id = 3"
| "AddressType_value AddressType_surface_vehicle = 4"
| "AddressType_value AddressType_ground_station_beacon = 5"

definition AddressType_of_int :: "int \<Rightarrow> error + AddressType" where
  "AddressType_of_int v =
     (if v = 0 then Inr AddressType_ads_b_icao
      else if v = 1 then Inr AddressType_ads_b_self_assigned
      else if v = 2 then Inr AddressType_tis_b_icao
      else if v = 3 then Inr AddressType_tis_b_track_file_id
      else if v = 4 then Inr AddressType_surface_vehicle
      else if v = 5 then Inr AddressType_ground_station_beacon
      else Inl ValueError)"

datatype EmitterCategory =
    EmitterCategory_no_aircraft_type_information
  | EmitterCategory_light
  | EmitterCategory_small
  | EmitterCategory_large
  | EmitterCategory_high_vortex_large
  | EmitterCategory_heavy
  | EmitterCategory_highly_maneuverable
  | EmitterCategory_rotorcraft
  | EmitterCategory_glider_or_sailplane
  | EmitterCategory_lighter_than_air
  | EmitterCategory_parachutist_or_sky_diver
  | EmitterCategory_ultra_light_or_hang_glider_or_paraglider
  | EmitterCategory_unmanned_aerial_vehicle
  | EmitterCategory_space_or_transatmospheric_vehicle
  | EmitterCategory_surface_emergency_vehicle
  | EmitterCategory_surface_service_vehicle
  | EmitterCategory_point_obstacle
  | EmitterCategory_cluster_obstacle
  | EmitterCategory_line_obstacle

fun EmitterCategory_value :: "EmitterCategory \<Rightarrow> int" where
  "EmitterCategory_value EmitterCategory_no_aircraft_type_information = 0"
| "EmitterCategory_value EmitterCategory_light = 1"
| "EmitterCategory_value EmitterCategory_small = 2"
| "EmitterCategory_value EmitterCategory_large = 3"
| "EmitterCategory_value EmitterCategory_high_vortex_large = 4"
| "EmitterCategory_value EmitterCategory_heavy = 5"
| "EmitterCategory_value EmitterCategory_highly_maneuverable = 6"
| "EmitterCategory_value EmitterCategory_rotorcraft = 7"
| "EmitterCategory_value EmitterCategory_glider_or_sailplane = 9"
| "EmitterCategory_value EmitterCategory_lighter_than_air = 10"
| "EmitterCategory_value EmitterCategory_parachutist_or_sky_diver = 11"
| "EmitterCategory_value EmitterCategory_ultra_light_or_hang_glider_or_paraglider = 12"
| "EmitterCategory_value EmitterCategory_unmanned_aerial_vehicle = 14"
| "EmitterCategory_value EmitterCategory_space_or_transatmospheric_vehicle = 15"
| "EmitterCategory_value EmitterCategory_surface_emergency_vehicle = 17"
| "EmitterCategory_value EmitterCategory_surface_service_vehicle = 18"
| "EmitterCategory_value EmitterCategory_point_obstacle = 19"
| "EmitterCategory_value EmitterCategory_cluster_obstacle = 20"
| "EmitterCategory_value EmitterCategory_line_obstacle = 21"

definition EmitterCategory_of_int :: "int \<Rightarrow> error + EmitterCategory" where
  "EmitterCategory_of_int v =
     (if v = 0 then Inr EmitterCategory_no_aircraft_type_information
      else if v = 1 then Inr EmitterCategory_light
      else if v = 2 then Inr EmitterCategory_small
      else if v = 3 then Inr EmitterCategory_large
      else if v = 4 then Inr EmitterCategory_high_vortex_large
      else if v = 5 then Inr EmitterCategory_heavy
      else if v = 6 then Inr EmitterCategory_highly_maneuverable
      else if v = 7 then Inr EmitterCategory_rotorcraft
      else if v = 9 then Inr EmitterCategory_glider_or_sailplane
      else if v = 10 then Inr EmitterCategory_lighter_than_air
      else if v = 11 then Inr EmitterCategory_parachutist_or_sky_diver
      else if v = 12 then Inr EmitterCategory_ultra_light_or_hang_glider_or_paraglider
      else if v = 14 then Inr EmitterCategory_unmanned_aerial_vehicle
      else if v = 15 then Inr EmitterCategory_space_or_transatmospheric_vehicle
      else if v = 17 then Inr EmitterCategory_surface_emergency_vehicle
      else if v = 18 then Inr EmitterCategory_surface_service_vehicle
      else if v = 19 then Inr EmitterCategory_point_obstacle
      else if v = 20 then Inr EmitterCategory_cluster_obstacle
      else if v = 21 then Inr EmitterCategory_line_obstacle
      else Inl ValueError)"

datatype EmergencyPriorityCode =
    EmergencyPriorityCode_no_emergency
  | EmergencyPriorityCode_general_emergency
  | EmergencyPriorityCode_medical_emergency
  | EmergencyPriorityCode_minimum_fuel
  | EmergencyPriorityCode_no_communication
  | EmergencyPriorityCode_unlawful_interference
  | EmergencyPriorityCode_downed_aircraft

fun EmergencyPriorityCode_value :: "EmergencyPriorityCode \<Rightarrow> int" where
  "EmergencyPriorityCode_value EmergencyPriorityCode_no_emergency = 0"
| "EmergencyPriorityCode_value EmergencyPriorityCode_general_emergency = 1"
| "EmergencyPriorityCode_value EmergencyPriorityCode_medical_emergency = 2"
| "EmergencyPriorityCode_value EmergencyPriorityCode_minimum_fuel = 3"
| "EmergencyPriorityCode_value EmergencyPriorityCode_no_communication = 4"
| "EmergencyPriorityCode_value EmergencyPriorityCode_unlawful_interference = 5"
| "EmergencyPriorityCode_value EmergencyPriorityCode_downed_aircraft = 6"

definition EmergencyPriorityCode_of_int :: "int \<Rightarrow> error + EmergencyPriorityCode" where
  "EmergencyPriorityCode_of_int v =
     (if v = 0 then Inr EmergencyPriorityCode_no_emergency
      else if v = 1 then Inr EmergencyPriorityCode_general_emergency
      else if v = 2 then Inr EmergencyPriorityCode_medical_emergency
      else if v = 3 then Inr EmergencyPriorityCode_minimum_fuel
      else if v = 4 then Inr EmergencyPriorityCode_no_communication
      else if v = 5 then Inr EmergencyPriorityCode_unlawful_interference
      else if v = 6 then Inr EmergencyPriorityCode_downed_aircraft
      else Inl ValueError)"

section \<open>Traffic Report and Ownship Report: \<^verbatim>\<open>messages/_base_traffic_report.py\<close>\<close>

record traffic_report =
  traffic_alert :: bool
  address_type :: AddressType
  address :: int
  latitude :: rat
  longitude :: rat
  pressure_altitude :: "int option"
  track_type :: TrackType
  report_extrapolated :: bool
  airborne :: bool
  integrity :: Integrity
  accuracy :: Accuracy
  horizontal_velocity :: "int option"
  vertical_velocity :: "int option"
  track :: int
  emitter_category :: EmitterCategory
  callsign :: "string option"
  emergency_priority_code :: EmergencyPriorityCode

definition TRAFFIC_ALERT_BITS :: nat where "TRAFFIC_ALERT_BITS = 4"
definition ADDRESS_TYPE_BITS :: nat where "ADDRESS_TYPE_BITS = 4"
definition ADDRESS_BITS :: nat where "ADDRESS_BITS = 24"
definition LATITUDE_BITS :: nat where "LATITUDE_BITS = 24"
definition LATITUDE_MAX :: rat where "LATITUDE_MAX = 90"
definition LATITUDE_MIN :: rat where "LATITUDE_MIN = -90"
definition LONGITUDE_BITS :: nat where "LONGITUDE_BITS = 24"
definition LONGITUDE_MAX :: rat where "LONGITUDE_MAX = 180"
definition LONGITUDE_MIN :: rat where "LONGITUDE_MIN = -180"
definition LATLON_RESOLUTION :: rat where "LATLON_RESOLUTION = 180 / 2 ^ 23"
definition PRESSURE_ALTITUDE_BITS :: nat where "PRESSURE_ALTITUDE_BITS = 12"
definition PRESSURE_ALTITUDE_RESOLUTION :: rat where "PRESSURE_ALTITUDE_RESOLUTION = 25"
definition PRESSURE_ALTITUDE_OFFSET :: int where "PRESSURE_ALTITUDE_OFFSET = 1000"
definition PRESSURE_ALTITUDE_MINIMUM :: int where "PRESSURE_ALTITUDE_MINIMUM = -1000"
definition PRESSURE_ALTITUDE_MAXIMUM :: int where "PRESSURE_ALTITUDE_MAXIMUM = 101350"
definition PRESSURE_ALTITUDE_INVALID_VALUE :: int where "PRESSURE_ALTITUDE_INVALID_VALUE = 0xFFF"
definition TRACK_TYPE_BITS :: nat where "TRACK_TYPE_BITS = 2"
definition INTEGRITY_BITS :: nat where "INTEGRITY_BITS = 4"
definition ACCURACY_BITS :: nat where "ACCURACY_BITS = 4"
definition HORIZONTAL_VELOCITY_BITS :: nat where "HORIZONTAL_VELOCITY_BITS = 12"
definition HORIZONTAL_VELOCITY_MAX :: int where "HORIZONTAL_VELOCITY_MAX = 4094"
definition HORIZONTAL_VELOCITY_INVALID :: int where "HORIZONTAL_VELOCITY_INVALID = 0xFFF"
definition VERTICAL_VELOCITY_BITS :: nat where "VERTICAL_VELOCITY_BITS = 12"
definition VERTICAL_VELOCITY_RESOLUTION :: rat where "VERTICAL_VELOCITY_RESOLUTION = 64"
definition VERTICAL_VELOCITY_INVALID :: int where "VERTICAL_VELOCITY_INVALID = 0x800"
definition VERTICAL_VELOCITY_MAX :: int where "VERTICAL_VELOCITY_MAX = 32576"
definition VERTICAL_VELOCITY_MIN :: int where "VERTICAL_VELOCITY_MIN = -32576"
definition VERTICAL_VELOCITY_MAX_VALUE :: int where "VERTICAL_VELOCITY_MAX_VALUE = 32640"
definition VERTICAL_VELOCITY_MIN_VALUE :: int where "VERTICAL_VELOCITY_MIN_VALUE = -32640"
definition TRACK_BITS :: nat where "TRACK_BITS = 8"
definition TRACK_RESOLUTION :: rat where "TRACK_RESOLUTION = 360 / 256"
definition EMITTER_CATEGORY_BITS :: nat where "EMITTER_CATEGORY_BITS = 8"
definition CALLSIGN_BITS :: nat where "CALLSIGN_BITS = 64"
definition EMERGENCY_PRIORITY_CODE_BITS :: nat where "EMERGENCY_PRIORITY_CODE_BITS = 4"
definition RESERVED_BITS :: nat where "RESERVED_BITS = 4"

text \<open>\<^verbatim>\<open>traffic_alert_bitarray[0]\<close>: the first bit of the span.\<close>

definition deserialize_traffic_alert :: "bitarray \<Rightarrow> error + bool" where
  "deserialize_traffic_alert traffic_alert_bitarray = list_index traffic_alert_bitarray 0"

definition serialize_traffic_alert :: "traffic_report \<Rightarrow> error + bitarray" where
  "serialize_traffic_alert self =
     serialize_uint (if traffic_alert self then 1 else 0) TRAFFIC_ALERT_BITS True"

definition deserialize_address_type :: "bitarray \<Rightarrow> error + AddressType" where
  "deserialize_address_type b = deserialize_enum b AddressType_of_int"

definition serialize_address_type :: "traffic_report \<Rightarrow> error + bitarray" where
  "serialize_address_type self =
     serialize_enum (AddressType_value (address_type self)) ADDRESS_TYPE_BITS"

definition deserialize_address :: "bitarray \<Rightarrow> error + int" where
  "deserialize_address b = deserialize_uint b"

definition serialize_address :: "traffic_report \<Rightarrow> error + bitarray" where
  "serialize_address self = serialize_uint (address self) ADDRESS_BITS False"

definition deserialize_latitude :: "bitarray \<Rightarrow> error + rat" where
  "deserialize_latitude b = deserialize_resolution_float b LATLON_RESOLUTION"

definition serialize_latitude :: "traffic_report \<Rightarrow> error + bitarray" where
  "serialize_latitude self =
     (let latitude1 = (if \<not> (LATITUDE_MIN \<le> latitude self \<and> latitude self \<le> LATITUDE_MAX)
                       then 0 else latitude self);
          latitude2 = (if integrity self = Integrity_unknown then 0 else latitude1)
      in serialize_resolution_float latitude2 LATLON_RESOLUTION LATITUDE_BITS)"

definition deserialize_longitude :: "bitarray \<Rightarrow> error + rat" where
  "deserialize_longitude b = deserialize_resolution_float b LATLON_RESOLUTION"

definition serialize_longitude :: "traffic_report \<Rightarrow> error + bitarray" where
  "serialize_longitude self =
     (let longitude1 = (if \<not> (LONGITUDE_MIN \<le> longitude self \<and> longitude self \<le> LONGITUDE_MAX)
                        then 0 else longitude self);
          longitude2 = (if integrity self = Integrity_unknown then 0 else longitude1)
      in serialize_resolution_float longitude2 LATLON_RESOLUTION LONGITUDE_BITS)"

definition deserialize_pressure_altitude :: "bitarray \<Rightarrow> error + int option" where
  "deserialize_pressure_altitude b =
     bindE (get_uint b) (\<lambda>u.
       if u = PRESSURE_ALTITUDE_INVALID_VALUE then Inr None
       else bindE (deserialize_resolution_offset_uint b PRESSURE_ALTITUDE_OFFSET
                     PRESSURE_ALTITUDE_RESOLUTION) (\<lambda>v. Inr (Some v)))"

definition serialize_pressure_altitude :: "traffic_report \<Rightarrow> error + bitarray" where
  "serialize_pressure_altitude self =
     (case pressure_altitude self of
        None \<Rightarrow> serialize_uint PRESSURE_ALTITUDE_INVALID_VALUE PRESSURE_ALTITUDE_BITS True
      | Some p \<Rightarrow>
          serialize_resolution_offset_uint
            (max (min p PRESSURE_ALTITUDE_MAXIMUM) PRESSURE_ALTITUDE_MINIMUM)
            PRESSURE_ALTITUDE_OFFSET PRESSURE_ALTITUDE_RESOLUTION PRESSURE_ALTITUDE_BITS)"

definition deserialize_track_type :: "bitarray \<Rightarrow> error + TrackType" where
  "deserialize_track_type b = deserialize_enum b TrackType_of_int"

definition serialize_track_type :: "traffic_report \<Rightarrow> error + bitarray" where
  "serialize_track_type self = serialize_enum (TrackType_value (track_type self)) TRACK_TYPE_BITS"

definition deserialize_report_extrapolated :: "bitarray \<Rightarrow> error + bool" where
  "deserialize_report_extrapolated b = deserialize_bool b"

definition serialize_report_extrapolated :: "traffic_report \<Rightarrow> error + bitarray" where
  "serialize_report_extrapolated self = serialize_bool (report_extrapolated self)"

definition deserialize_airborne :: "bitarray \<Rightarrow> error + bool" where
  "deserialize_airborne b = deserialize_bool b"

definition serialize_airborne :: "traffic_report \<Rightarrow> error + bitarray" where
  "serialize_airborne self = serialize_bool (airborne self)"

definition deserialize_integrity :: "bitarray \<Rightarrow> error + Integrity" where
  "deserialize_integrity b = deserialize_enum b Integrity_of_int"

definition serialize_integrity :: "traffic_report \<Rightarrow> error + bitarray" where
  "serialize_integrity self = serialize_enum (Integrity_value (integrity self)) INTEGRITY_BITS"

definition deserialize_accuracy :: "bitarray \<Rightarrow> error + Accuracy" where
  "deserialize_accuracy b = deserialize_enum b Accuracy_of_int"

definition serialize_accuracy :: "traffic_report \<Rightarrow> error + bitarray" where
  "serialize_accuracy self = serialize_enum (Accuracy_value (accuracy self)) ACCURACY_BITS"

definition serialize_horizontal_velocity :: "traffic_report \<Rightarrow> error + bitarray" where
  "serialize_horizontal_velocity self =
     (case horizontal_velocity self of
        None \<Rightarrow> serialize_uint HORIZONTAL_VELOCITY_INVALID HORIZONTAL_VELOCITY_BITS True
      | Some h \<Rightarrow>
          serialize_uint (min h HORIZONTAL_VELOCITY_MAX) HORIZONTAL_VELOCITY_BITS True)"

definition deserialize_horizontal_velocity :: "bitarray \<Rightarrow> error + int option" where
  "deserialize_horizontal_velocity b =
     bindE (get_uint b) (\<lambda>u.
       if u = HORIZONTAL_VELOCITY_INVALID then Inr None
       else bindE (deserialize_uint b) (\<lambda>v. Inr (Some v)))"

definition serialize_vertical_velocity :: "traffic_report \<Rightarrow> error + bitarray" where
  "serialize_vertical_velocity self =
     (case vertical_velocity self of
        None \<Rightarrow> serialize_uint VERTICAL_VELOCITY_INVALID VERTICAL_VELOCITY_BITS True
      | Some v \<Rightarrow>
          (let v1 = (if v > VERTICAL_VELOCITY_MAX then VERTICAL_VELOCITY_MAX_VALUE else v);
               v2 = (if v1 < VERTICAL_VELOCITY_MIN then VERTICAL_VELOCITY_MIN_VALUE else v1)
           in serialize_resolution_int (of_int v2) VERTICAL_VELOCITY_RESOLUTION
                VERTICAL_VELOCITY_BITS))"

definition deserialize_vertical_velocity :: "bitarray \<Rightarrow> error + int option" where
  "deserialize_vertical_velocity b =
     bindE (get_uint b) (\<lambda>u.
       if u = VERTICAL_VELOCITY_INVALID then Inr None
       else bindE (deserialize_resolution_int b VERTICAL_VELOCITY_RESOLUTION)
              (\<lambda>v. Inr (Some v)))"

definition serialize_track :: "traffic_report \<Rightarrow> error + bitarray" where
  "serialize_track self = serialize_resolution_uint (track self) TRACK_RESOLUTION TRACK_BITS"

definition deserialize_track :: "bitarray \<Rightarrow> error + int" where
  "deserialize_track b = deserialize_resolution_uint b TRACK_RESOLUTION"

definition deserialize_emitter_category :: "bitarray \<Rightarrow> error + EmitterCategory" where
  "deserialize_emitter_category b = deserialize_enum b EmitterCategory_of_int"

definition serialize_emitter_category :: "traffic_report \<Rightarrow> error + bitarray" where
  "serialize_emitter_category self =
     serialize_enum (EmitterCategory_value (emitter_category self)) EMITTER_CATEGORY_BITS"

definition serialize_callsign :: "traffic_report \<Rightarrow> error + bitarray" where
  "serialize_callsign self =
     (case callsign self of
        None \<Rightarrow> serialize_str [] CALLSIGN_BITS ascii
      | Some c0 \<Rightarrow>
          (let c1 = strip c0
           in if c1 \<noteq> [] then
                (let c2 = take CALLSIGN_BITS (upper c1)
                 in if \<not> isalnum c2 then Inl InvalidCallsign
                    else serialize_str c2 CALLSIGN_BITS ascii)
              else serialize_str [] CALLSIGN_BITS ascii))"

definition deserialize_callsign :: "bitarray \<Rightarrow> error + string" where
  "deserialize_callsign b = bindE (deserialize_str_ascii b) (\<lambda>s. Inr (rstrip s))"

definition deserialize_emergency_priority_code ::
  "bitarray \<Rightarrow> error + EmergencyPriorityCode" where
  "deserialize_emergency_priority_code b = deserialize_enum b EmergencyPriorityCode_of_int"

definition serialize_emergency_priority_code :: "traffic_report \<Rightarrow> error + bitarray" where
  "serialize_emergency_priority_code self =
     serialize_enum (EmergencyPriorityCode_value (emergency_priority_code self))
       EMERGENCY_PRIORITY_CODE_BITS"

text \<open>The body of \<^verbatim>\<open>serialize\<close>: the fields in wire order, evaluated left to right.\<close>

definition traffic_report_all_data :: "traffic_report \<Rightarrow> error + bitarray" where
  "traffic_report_all_data self =
     bindE (serialize_traffic_alert self) (\<lambda>b1.
     bindE (serialize_address_type self) (\<lambda>b2.
     bindE (serialize_address self) (\<lambda>b3.
     bindE (serialize_latitude self) (\<lambda>b4.
     bindE (serialize_longitude self) (\<lambda>b5.
     bindE (serialize_pressure_altitude self) (\<lambda>b6.
     bindE (serialize_airborne self) (\<lambda>b7.
     bindE (serialize_report_extrapolated self) (\<lambda>b8.
     bindE (serialize_track_type self) (\<lambda>b9.
     bindE (serialize_integrity self) (\<lambda>b10.
     bindE (serialize_accuracy self) (\<lambda>b11.
     bindE (serialize_horizontal_velocity self) (\<lambda>b12.
     bindE (serialize_vertical_velocity self) (\<lambda>b13.
     bindE (serialize_track self) (\<lambda>b14.
     bindE (serialize_emitter_category self) (\<lambda>b15.
     bindE (serialize_callsign self) (\<lambda>b16.
     bindE (serialize_emergency_priority_code self) (\<lambda>b17.
     bindE (BitArray_uint 0 RESERVED_BITS) (\<lambda>b18.
       Inr (b1 @ b2 @ b3 @ b4 @ b5 @ b6 @ b7 @ b8 @ b9 @ b10 @ b11 @ b12 @ b13 @ b14
              @ b15 @ b16 @ b17 @ b18)))))))))))))))))))"

text \<open>
  \<^verbatim>\<open>BaseTrafficReport.serialize\<close>; the class attribute \<^verbatim>\<open>MESSAGE_IDS\<close> of the subclass is
  a parameter.
\<close>

definition traffic_report_serialize ::
  "nat list \<Rightarrow> traffic_report \<Rightarrow> bool \<Rightarrow> error + byte list" where
  "traffic_report_serialize MESSAGE_IDS self outgoing_lsb =
     bindE (traffic_report_all_data self) (\<lambda>all_data. build MESSAGE_IDS all_data outgoing_lsb)"

text \<open>The decoding of the body bits in \<^verbatim>\<open>BaseTrafficReport.deserialize\<close>.\<close>

definition traffic_report_deserialize_bits :: "bitarray \<Rightarrow> error + traffic_report" where
  "traffic_report_deserialize_bits data0 =
     (let (f1, data1) = pop_bits data0 TRAFFIC_ALERT_BITS in
      bindE (deserialize_traffic_alert f1) (\<lambda>traffic_alert'.
      let (f2, data2) = pop_bits data1 ADDRESS_TYPE_BITS in
      bindE (deserialize_address_type f2) (\<lambda>address_type'.
      let (f3, data3) = pop_bits data2 ADDRESS_BITS in
      bindE (deserialize_address f3) (\<lambda>address'.
      let (f4, data4) = pop_bits data3 LATITUDE_BITS in
      bindE (deserialize_latitude f4) (\<lambda>latitude'.
      let (f5, data5) = pop_bits data4 LONGITUDE_BITS in
      bindE (deserialize_longitude f5) (\<lambda>longitude'.
      let (f6, data6) = pop_bits data5 PRESSURE_ALTITUDE_BITS in
      bindE (deserialize_pressure_altitude f6) (\<lambda>pressure_altitude'.
      let (f7, data7) = pop_bits data6 1 in
      bindE (deserialize_airborne f7) (\<lambda>airborne'.
      let (f8, data8) = pop_bits data7 1 in
      bindE (deserialize_report_extrapolated f8) (\<lambda>report_extrapolated'.
      let (f9, data9) = pop_bits data8 TRACK_TYPE_BITS in
      bindE (deserialize_track_type f9) (\<lambda>track_type'.
      let (f10, data10) = pop_bits data9 INTEGRITY_BITS in
      bindE (deserialize_integrity f10) (\<lambda>integrity'.
      let (f11, data11) = pop_bits data10 ACCURACY_BITS in
      bindE (deserialize_accuracy f11) (\<lambda>accuracy'.
      let (f12, data12) = pop_bits data11 HORIZONTAL_VELOCITY_BITS in
      bindE (deserialize_horizontal_velocity f12) (\<lambda>horizontal_velocity'.
      let (f13, data13) = pop_bits data12 VERTICAL_VELOCITY_BITS in
      bindE (deserialize_vertical_velocity f13) (\<lambda>vertical_velocity'.
      let (f14, data14) = pop_bits data13 TRACK_BITS in
      bindE (deserialize_track f14) (\<lambda>track'.
      let (f15, data15) = pop_bits data14 EMITTER_CATEGORY_BITS in
      bindE (deserialize_emitter_category f15) (\<lambda>emitter_category'.
      let (f16, data16) = pop_bits data15 CALLSIGN_BITS in
      bindE (deserialize_callsign f16) (\<lambda>callsign'.
      let (f17, data17) = pop_bits data16 EMERGENCY_PRIORITY_CODE_BITS in
      bindE (deserialize_emergency_priority_code f17) (\<lambda>emergency_priority_code'.
      let (f18, data18) = pop_bits data17 RESERVED_BITS in
      if length data18 \<noteq> 0 then Inl DataTooLong
      else Inr \<lparr>traffic_alert = traffic_alert',
                address_type = address_type',
                address = address',
                latitude = latitude',
                longitude = longitude',
                pressure_altitude = pressure_altitude',
                track_type = track_type',
                report_extrapolated = report_extrapolated',
                airborne = airborne',
                integrity = integrity',
                accuracy = accuracy',
                horizontal_velocity = horizontal_velocity',
                vertical_velocity = vertical_velocity',
                track = track',
                emitter_category = emitter_category',
                callsign = Some callsign',
                emergency_priority_code = emergency_priority_code'\<rparr>))))))))))))))))))"

definition traffic_report_deserialize ::
  "nat list \<Rightarrow> byte list \<Rightarrow> bool \<Rightarrow> error + traffic_report" where
  "traffic_report_deserialize MESSAGE_IDS data incoming_msb =
     bindE (clean_data MESSAGE_IDS data incoming_msb) traffic_report_deserialize_bits"

definition OwnshipReport_MESSAGE_IDS :: "nat list" where
  "OwnshipReport_MESSAGE_IDS = [10]"

text \<open>
  Modelled from the spec: \<^verbatim>\<open>messages/traffic_report.py\<close>, which declares the subclass
  \<^verbatim>\<open>TrafficReportMessage\<close>, is not among the sources; the specification gives the
  Traffic Report the message id 20 and the layout of the Ownship Report.
\<close>

definition TrafficReport_MESSAGE_IDS :: "nat list" where
  "TrafficReport_MESSAGE_IDS = [20]"

text \<open>A Traffic Report used to instantiate statements at a concrete record.\<close>

definition sample_traffic_report :: traffic_report where
  "sample_traffic_report =
     \<lparr>traffic_alert = True,
      address_type = AddressType_ads_b_icao,
      address = 0xAB4549,
      latitude = 47,
      longitude = 2,
      pressure_altitude = Some 3000,
      track_type = TrackType_true_track_angle,
      report_extrapolated = False,
      airborne = True,
      integrity = Integrity_unknown,
      accuracy = Accuracy_less_than_0_05_nm,
      horizontal_velocity = Some 123,
      vertical_velocity = Some (-100),
      track = 45,
      emitter_category = EmitterCategory_light,
      callsign = Some ''N825V'',
      emergency_priority_code = EmergencyPriorityCode_no_emergency\<rparr>"

section \<open>Bit arrays and bytes\<close>

lemma length_bits_of [simp]: "length (bits_of n v) = n"
  by (simp add: bits_of_def)

lemma bits_val_bits_of: "bits_val (bits_of n v) = take_bit n v"
  by (simp add: bits_val_def bits_of_def horner_sum_bit_eq_take_bit)

lemma bits_of_bits_val: "bits_of (length bs) (bits_val bs) = bs"
  by (rule nth_equalityI)
     (auto simp add: bits_of_def bits_val_def rev_nth bit_horner_sum_bit_iff)

lemma bits_val_bounds: "0 \<le> bits_val bs" "bits_val bs < 2 ^ length bs"
  using horner_sum_of_bool_2_less [of "rev bs", where ?'a = int]
  by (simp_all add: bits_val_def horner_sum_nonnegative)

lemma cut_append: "0 < n \<Longrightarrow> length xs = n \<Longrightarrow> cut n (xs @ ys) = xs # cut n ys"
  by (subst cut.simps) auto

lemma cut_Nil [simp]: "cut n [] = []"
  by (subst cut.simps) simp

lemma length_byte_bits [simp]: "length (byte_bits b) = 8"
  by (simp add: byte_bits_def)

lemma cut_BitArray_bytes: "cut 8 (BitArray_bytes bs) = map byte_bits bs"
  by (induction bs) (simp_all add: BitArray_bytes_def cut_append)

lemma bits_byte_byte_bits [simp]: "bits_byte (byte_bits b) = b"
  by (simp add: bits_byte_def byte_bits_def bits_val_bits_of take_bit_int_eq_self
        uint_bounded [where ?'a = 8, simplified])

lemma byte_bits_bits_byte: "length bs = 8 \<Longrightarrow> byte_bits (bits_byte bs) = bs"
  using bits_of_bits_val [of bs] bits_val_bounds [of bs]
  by (simp add: bits_byte_def byte_bits_def uint_word_of_int_eq take_bit_int_eq_self)

lemma length_BitArray_bytes [simp]: "length (BitArray_bytes bs) = 8 * length bs"
  by (induction bs) (simp_all add: BitArray_bytes_def)

lemma get_bytes_BitArray_bytes [simp]: "get_bytes (BitArray_bytes bs) = Inr bs"
  by (simp add: get_bytes_def cut_BitArray_bytes comp_def)

lemma tobytes_BitArray_bytes [simp]: "tobytes (BitArray_bytes bs) = bs"
  by (simp add: tobytes_def cut_BitArray_bytes comp_def)

section \<open>The checksum on 16-bit words\<close>

lemma mask16: "MASK_16_BIT = mask 16"
  by (simp add: MASK_16_BIT_def mask_eq_exp_minus_1)

lemma and_8000: "(uint (w :: 16 word) AND 0x8000 \<noteq> 0) = bit w 15"
  using and_exp_eq_0_iff_not_bit [of "uint w" 15] by (simp add: bit_uint_iff)

lemma take_bit_16_uint16 [simp]: "take_bit 16 (uint (w :: 16 word)) = uint w"
  using uint_bounded [of w] by (simp add: take_bit_int_eq_self)

lemma take_bit_16_uint8 [simp]: "take_bit 16 (uint (c :: byte)) = uint c"
proof -
  have "uint c < 2 ^ 8" using uint_bounded [of c] by simp
  then have "uint c < 2 ^ 16" by simp
  then show ?thesis by (simp add: take_bit_int_eq_self)
qed

lemma uint_word_of_nat_16: "i < 256 \<Longrightarrow> uint (word_of_nat i :: 16 word) = int i"
  by (simp add: unsigned_of_nat take_bit_nat_eq_self)

lemma crc_table_inner_word:
  "crc_table_inner n (uint (w :: 16 word)) = uint (poly_steps n w)"
proof (induction n arbitrary: w)
  case 0
  show ?case by simp
next
  case (Suc n)
  have "((push_bit 1 (uint w)) AND MASK_16_BIT)
          XOR (if uint w AND 0x8000 \<noteq> 0 then 0x1021 else 0) = uint (poly_step w)"
    using unsigned_push_bit_eq [of 1 w, where ?'a = int]
    by (simp add: poly_step_def and_8000 mask16 uint_xor flip: take_bit_eq_mask)
  then show ?case using Suc.IH by simp
qed

lemma crc_table_length [simp]: "length crc_table = 256"
  by (simp add: crc_table_def)

lemma crc_table_nth:
  assumes "i < 256"
  shows "crc_table ! i = uint (crc16_entry (word_of_nat i))"
proof -
  have "(push_bit 8 (int i)) AND MASK_16_BIT = uint (push_bit 8 (word_of_nat i :: 16 word))"
    using assms
    by (simp add: mask16 unsigned_push_bit_eq uint_word_of_nat_16 flip: take_bit_eq_mask)
  then show ?thesis
    using assms
    by (simp add: crc_table_def crc16_entry_def crc_table_inner_word
             del: crc_table_inner.simps)
qed

lemma drop_bit_8_uint16:
  "0 \<le> drop_bit 8 (uint (w :: 16 word))" "drop_bit 8 (uint (w :: 16 word)) < 256"
proof -
  show "0 \<le> drop_bit 8 (uint w)" by simp
  have "uint w < 2 ^ 16" using uint_bounded [of w] by simp
  then show "drop_bit 8 (uint w) < 256"
    by (simp add: drop_bit_eq_div)
qed

lemma list_index_crc_table:
  "list_index crc_table (drop_bit 8 (uint (w :: 16 word)))
     = Inr (uint (crc16_entry (drop_bit 8 w)))"
proof -
  let ?j = "drop_bit 8 (uint w)"
  have j: "0 \<le> ?j" "?j < 256" by (rule drop_bit_8_uint16)+
  then have n: "nat ?j < 256" by simp
  have "word_of_nat (nat ?j) = (drop_bit 8 w :: 16 word)"
    using j
    by (simp add: word_eq_iff_unsigned [where ?'a = int] unsigned_drop_bit_eq
          uint_word_of_int_eq take_bit_int_eq_self)
  then show ?thesis
    using j crc_table_nth [OF n] by (simp add: list_index_def)
qed

lemma crc_step_word:
  "uint (crc16_entry (drop_bit 8 w)) XOR ((push_bit 8 (uint w)) AND MASK_16_BIT) XOR uint c
     = uint (gdl90_crc_step w c)"
  by (simp add: gdl90_crc_step_def uint_xor mask16 unsigned_push_bit_eq unsigned_ucast_eq
        flip: take_bit_eq_mask)

lemma compute_crc_loop_word:
  "compute_crc_loop (uint w) data = Inr (uint (foldl gdl90_crc_step w data))"
proof (induction data arbitrary: w)
  case Nil
  show ?case by simp
next
  case (Cons c data)
  show ?case
    using Cons.IH [of "gdl90_crc_step w c"]
    by (simp add: list_index_crc_table bindE_def crc_step_word Let_def)
qed

lemma to_bytes_2_little_word:
  "to_bytes_2_little (uint (w :: 16 word)) = Inr (little_endian_16 w)"
proof -
  have "uint w < 2 ^ 16" using uint_bounded [of w] by simp
  moreover have "(word_of_int (uint w) :: byte) = ucast w" by simp
  moreover have "(word_of_int (drop_bit 8 (uint w)) :: byte) = ucast (drop_bit 8 w)"
    by (simp add: word_eq_iff_unsigned [where ?'a = int] unsigned_drop_bit_eq
          uint_word_of_int_eq unsigned_ucast_eq)
  ultimately show ?thesis by (simp add: to_bytes_2_little_def little_endian_16_def)
qed

lemma compute_crc_word:
  "compute_crc data = Inr (little_endian_16 (foldl gdl90_crc_step 0 data))"
  using compute_crc_loop_word [of 0 data]
  by (simp add: compute_crc_def bindE_def to_bytes_2_little_word)

text \<open>Evaluating the checksum of a concrete buffer.\<close>

lemma bit15: "bit (w :: 16 word) 15 \<longleftrightarrow> 0x8000 \<le> w"
proof -
  have "bit w 15 \<longleftrightarrow> bit (uint w) 15" by (simp add: bit_uint_iff)
  also have "\<dots> \<longleftrightarrow> 2 ^ 15 \<le> uint w"
  proof -
    have "uint w < 2 ^ 16" using uint_bounded [of w] by simp
    moreover have "0 \<le> uint w" by simp
    ultimately have "uint w div 2 ^ 15 = (if 2 ^ 15 \<le> uint w then 1 else 0)"
      by (simp add: div_pos_pos_trivial) linarith
    then show ?thesis by (simp add: bit_iff_odd_drop_bit drop_bit_eq_div)
  qed
  also have "\<dots> \<longleftrightarrow> 0x8000 \<le> w" by (simp add: word_le_def)
  finally show ?thesis .
qed

lemma poly_step_eval: "poly_step w = (if 0x8000 \<le> w then (w * 2) XOR 0x1021 else w * 2)"
  by (simp add: poly_step_def bit15)

lemma crc16_entry_eval:
  "crc16_entry i =
     poly_step (poly_step (poly_step (poly_step
       (poly_step (poly_step (poly_step (poly_step (i * 256))))))))"
  by (simp add: crc16_entry_def eval_nat_numeral push_bit_eq_mult)

lemma gdl90_crc_step_eval:
  "gdl90_crc_step crc c = crc16_entry (crc div 256) XOR (crc * 256) XOR ucast c"
  by (simp add: gdl90_crc_step_def drop_bit_eq_div push_bit_eq_mult)

lemma spec_crc_step_eval:
  "spec_crc_step crc c = crc16_entry ((crc div 256) XOR ucast c) XOR (crc * 256)"
  by (simp add: spec_crc_step_def drop_bit_eq_div push_bit_eq_mult)

lemma little_endian_16_eval: "little_endian_16 w = [ucast w, ucast (w div 256)]"
  by (simp add: little_endian_16_def drop_bit_eq_div)

lemmas crc_eval =
  compute_crc_word gdl90_crc_step_eval spec_crc_step_eval crc16_entry_eval poly_step_eval
  little_endian_16_eval

section \<open>Framing: bit reversal, escaping, and the round trip of a frame\<close>

lemma lsb_BitArray_bytes: "lsb (BitArray_bytes bs) = BitArray_bytes (map rev_byte bs)"
  unfolding lsb_def cut_BitArray_bytes
  by (simp add: BitArray_bytes_def rev_byte_def comp_def byte_bits_bits_byte)

lemma lsb_bytes_eq: "lsb_bytes bs = Inr (map rev_byte bs)"
  by (simp add: lsb_bytes_def lsb_BitArray_bytes)

lemma rev_byte_rev_byte [simp]: "rev_byte (rev_byte b) = b"
  by (simp add: rev_byte_def byte_bits_bits_byte)

lemma rev_byte_FLAG [simp]: "rev_byte FLAG_BYTE = FLAG_BYTE"
  by (simp add: rev_byte_def FLAG_BYTE_def byte_bits_def bits_of_def bits_byte_def
        bits_val_def upt_rec [of _ "numeral k" for k] bit_numeral_simps)

lemma map_rev_byte_involution [simp]: "map rev_byte (map rev_byte bs) = bs"
  by (simp add: comp_def)

lemma unescape_loop_no_escape:
  "CONTROL_ESCAPE_BYTE \<notin> set data \<Longrightarrow> unescape_loop acc data = Inr (acc @ data)"
  by (subst unescape_loop.simps) simp

lemma unescape_loop_Cons_plain:
  assumes "x \<noteq> CONTROL_ESCAPE_BYTE"
  shows "unescape_loop acc (x # data) = unescape_loop (acc @ [x]) data"
proof (cases "CONTROL_ESCAPE_BYTE \<in> set data")
  case True
  then show ?thesis
    using assms
    by (subst unescape_loop.simps, subst (2) unescape_loop.simps) (simp add: Let_def)
next
  case False
  then show ?thesis using assms by (simp add: unescape_loop_no_escape)
qed

lemma unescape_loop_Cons_escape:
  "unescape_loop acc (CONTROL_ESCAPE_BYTE # e # data)
     = unescape_loop (acc @ [e XOR ESCAPE_XOR_BYTE]) data"
  by (subst unescape_loop.simps) (simp add: Let_def)

lemma xor_xor_escape [simp]: "(x XOR ESCAPE_XOR_BYTE) XOR ESCAPE_XOR_BYTE = x"
  by (simp add: xor.assoc)

lemma unescape_loop_escape: "unescape_loop acc (escape data) = Inr (acc @ data)"
proof (induction data arbitrary: acc)
  case Nil
  show ?case by (simp add: unescape_loop_no_escape)
next
  case (Cons x data)
  show ?case
  proof (cases "x \<in> {FLAG_BYTE, CONTROL_ESCAPE_BYTE}")
    case True
    then show ?thesis
      using Cons.IH [of "acc @ [x]"] by (simp add: unescape_loop_Cons_escape del: insert_iff)
  next
    case False
    then show ?thesis
      using Cons.IH [of "acc @ [x]"] by (simp add: unescape_loop_Cons_plain)
  qed
qed

lemma unescape_escape: "unescape (escape data) = Inr data"
  by (simp add: unescape_def unescape_loop_escape)

lemma concat_cut: "0 < n \<Longrightarrow> concat (cut n b) = b"
proof (induction n b rule: cut.induct)
  case (1 bits b)
  then show ?case by (subst cut.simps) auto
qed

lemma cut_chunks_full:
  "0 < n \<Longrightarrow> length b mod n = 0 \<Longrightarrow> c \<in> set (cut n b) \<Longrightarrow> length c = n"
proof (induction n b rule: cut.induct)
  case (1 bits b)
  show ?case
  proof (cases "b = []")
    case True
    with "1.prems" show ?thesis by simp
  next
    case False
    have len: "bits \<le> length b"
      using "1.prems"(1,2) False by (metis length_0_conv mod_less not_le_imp_less)
    have "length (drop bits b) mod bits = 0"
      using "1.prems"(1,2) len by (metis length_drop le_mod_geq)
    with "1.IH" "1.prems"(1) False
    have IH: "c \<in> set (cut bits (drop bits b)) \<Longrightarrow> length c = bits" by simp
    from "1.prems"(3) have "c = take bits b \<or> c \<in> set (cut bits (drop bits b))"
      using False "1.prems"(1) by (subst (asm) cut.simps) auto
    then show ?thesis using IH len by auto
  qed
qed

lemma BitArray_bytes_tobytes:
  assumes "length b mod 8 = 0"
  shows "BitArray_bytes (tobytes b) = b"
proof -
  have "map byte_bits (map bits_byte (cut 8 b)) = cut 8 b"
    using cut_chunks_full [of 8 b] assms
    by (simp add: map_idI byte_bits_bits_byte)
  then show ?thesis
    using assms concat_cut [of 8 b] by (simp add: tobytes_def BitArray_bytes_def)
qed

lemma length_tobytes: "length b mod 8 = 0 \<Longrightarrow> 8 * length (tobytes b) = length b"
  using BitArray_bytes_tobytes [of b] length_BitArray_bytes [of "tobytes b"] by simp

lemma FLAG_notin_escape: "FLAG_BYTE \<notin> set (escape xs)"
  by (induction xs)
     (auto simp add: FLAG_BYTE_def CONTROL_ESCAPE_BYTE_def ESCAPE_XOR_BYTE_def)

lemma escape_nth:
  "i < length (escape xs) \<Longrightarrow> escape xs ! i = CONTROL_ESCAPE_BYTE \<Longrightarrow>
     Suc i < length (escape xs) \<and> (escape xs ! Suc i = 0x5D \<or> escape xs ! Suc i = 0x5E)"
proof (induction xs arbitrary: i)
  case Nil
  then show ?case by simp
next
  case (Cons x xs)
  show ?case
  proof (cases "x \<in> {FLAG_BYTE, CONTROL_ESCAPE_BYTE}")
    case True
    then have e: "escape (x # xs) = CONTROL_ESCAPE_BYTE # (x XOR ESCAPE_XOR_BYTE) # escape xs"
      by simp
    have x': "x XOR ESCAPE_XOR_BYTE = 0x5D \<or> x XOR ESCAPE_XOR_BYTE = 0x5E"
      using True by (auto simp add: FLAG_BYTE_def CONTROL_ESCAPE_BYTE_def ESCAPE_XOR_BYTE_def)
    then have x'': "x XOR ESCAPE_XOR_BYTE \<noteq> CONTROL_ESCAPE_BYTE"
      by (auto simp add: CONTROL_ESCAPE_BYTE_def)
    show ?thesis
    proof (cases i)
      case 0
      then show ?thesis using x' by (simp only: e) simp
    next
      case (Suc j)
      note i = Suc
      show ?thesis
      proof (cases j)
        case 0
        then show ?thesis using Cons.prems x'' i by (simp only: e) simp
      next
        case (Suc k)
        then show ?thesis using Cons.prems Cons.IH [of k] i by (simp only: e) simp
      qed
    qed
  next
    case False
    then have e: "escape (x # xs) = x # escape xs" by simp
    show ?thesis
    proof (cases i)
      case 0
      then show ?thesis using Cons.prems False by (simp only: e) simp
    next
      case (Suc j)
      then show ?thesis using Cons.prems Cons.IH [of j] by (simp only: e) simp
    qed
  qed
qed

lemma message_id_bytes_loop_ok:
  "\<forall>i \<in> set ids. i < 256 \<Longrightarrow> message_id_bytes_loop acc ids = Inr (acc @ map of_nat ids)"
  by (induction ids arbitrary: acc) (simp_all add: to_bytes_1_def bindE_def)

lemma message_id_bytes_loop_Inr:
  "message_id_bytes_loop acc ids = Inr bs \<Longrightarrow> (\<forall>i \<in> set ids. i < 256) \<and> bs = acc @ map of_nat ids"
proof (induction ids arbitrary: acc)
  case Nil
  then show ?case by simp
next
  case (Cons a ids)
  from Cons.prems have a: "a < 256"
    by (simp add: to_bytes_1_def bindE_def split: if_splits)
  with Cons.prems have "message_id_bytes_loop (acc @ [of_nat a]) ids = Inr bs"
    by (simp add: to_bytes_1_def bindE_def)
  from Cons.IH [OF this] a show ?case by simp
qed

lemma build_ok:
  "\<forall>i \<in> set ids. i < 256 \<Longrightarrow>
     build ids data outgoing_lsb = Inr (frame_of outgoing_lsb (map of_nat ids @ tobytes data))"
  by (simp add: build_def message_id_bytes_loop_ok bindE_def compute_crc_word Let_def
        lsb_bytes_eq frame_of_def)

lemma build_Inr:
  "build ids data outgoing_lsb = Inr frame \<Longrightarrow>
     (\<forall>i \<in> set ids. i < 256) \<and> frame = frame_of outgoing_lsb (map of_nat ids @ tobytes data)"
proof -
  assume a: "build ids data outgoing_lsb = Inr frame"
  then obtain bs where "message_id_bytes_loop [] ids = Inr bs"
    by (cases "message_id_bytes_loop [] ids") (simp_all add: build_def bindE_def)
  then have "\<forall>i \<in> set ids. i < 256" using message_id_bytes_loop_Inr by blast
  then show ?thesis using a build_ok [of ids data outgoing_lsb] by simp
qed

lemma length_little_endian_16 [simp]: "length (little_endian_16 w) = 2"
  by (simp add: little_endian_16_def)

lemma check_crc_ok:
  "check_crc payload (little_endian_16 (foldl gdl90_crc_step 0 payload)) = Inr ()"
  by (simp add: check_crc_def compute_crc_word bindE_def)

lemma deconstruct_frame_of:
  "deconstruct (frame_of outgoing_lsb payload) (\<not> outgoing_lsb) =
     (case payload of
        [] \<Rightarrow> Inl IndexError
      | message_id # rest \<Rightarrow>
          if unat message_id = FOREFLIGHT_MESSAGE_ID then
            (case rest of
               [] \<Rightarrow> Inl IndexError
             | sub_id # message_data \<Rightarrow>
                 Inr ([unat message_id, unat sub_id], BitArray_bytes message_data))
          else Inr ([unat message_id], BitArray_bytes rest))"
proof -
  let ?crc = "little_endian_16 (foldl gdl90_crc_step 0 payload)"
  let ?inner = "escape (payload @ ?crc)"
  let ?f = "frame_of outgoing_lsb payload"
  have f: "?f = (if outgoing_lsb then map rev_byte ([FLAG_BYTE] @ ?inner @ [FLAG_BYTE])
                 else [FLAG_BYTE] @ ?inner @ [FLAG_BYTE])"
    by (simp add: frame_of_def Let_def)
  have ne: "?f \<noteq> []" by (simp add: f)
  have hd: "hd ?f = FLAG_BYTE" by (simp add: f)
  have mid: "butlast (tl ?f) = (if outgoing_lsb then map rev_byte ?inner else ?inner)"
    by (simp add: f butlast_append map_butlast [symmetric])
  have un: "(if outgoing_lsb then lsb_bytes (butlast (tl ?f)) else Inr (butlast (tl ?f)))
              = Inr ?inner"
    using mid by (cases outgoing_lsb) (simp_all add: lsb_bytes_eq comp_def)
  show ?thesis
    unfolding deconstruct_def
    by (simp only: ne hd un if_False simp_thms bindE_def sum.case unescape_escape Let_def)
       (simp add: check_crc_ok)
qed

lemma unat_of_nat_byte: "i < 256 \<Longrightarrow> unat (of_nat i :: byte) = i"
  by (simp add: unat_of_nat)

lemma deconstruct_build_single:
  assumes "build [i] data outgoing_lsb = Inr frame"
    and "i \<noteq> FOREFLIGHT_MESSAGE_ID" and "length data mod 8 = 0"
  shows "deconstruct frame (\<not> outgoing_lsb) = Inr ([i], data)"
proof -
  from build_Inr [OF assms(1)]
  have i: "i < 256" and f: "frame = frame_of outgoing_lsb (of_nat i # tobytes data)" by simp_all
  show ?thesis
    using assms(2,3) i
    by (simp add: f deconstruct_frame_of unat_of_nat_byte BitArray_bytes_tobytes)
qed

lemma deconstruct_build_foreflight:
  assumes "build [FOREFLIGHT_MESSAGE_ID, j] data outgoing_lsb = Inr frame"
    and "length data mod 8 = 0"
  shows "deconstruct frame (\<not> outgoing_lsb) = Inr ([FOREFLIGHT_MESSAGE_ID, j], data)"
proof -
  from build_Inr [OF assms(1)]
  have j: "j < 256"
    and f: "frame = frame_of outgoing_lsb (of_nat FOREFLIGHT_MESSAGE_ID # of_nat j # tobytes data)"
    by simp_all
  have "unat (of_nat FOREFLIGHT_MESSAGE_ID :: byte) = FOREFLIGHT_MESSAGE_ID"
    by (simp add: FOREFLIGHT_MESSAGE_ID_def)
  then show ?thesis
    using assms(2) j
    by (simp add: f deconstruct_frame_of unat_of_nat_byte BitArray_bytes_tobytes)
qed

section \<open>Evaluating and inverting bit arrays\<close>

lemma bits_of_0 [simp]: "bits_of 0 v = []"
  by (simp add: bits_of_def)

lemma bits_of_Suc: "bits_of (Suc n) v = bits_of n (v div 2) @ [odd v]"
proof -
  have "map (bit v) [0..<Suc n] = bit v 0 # map (bit (v div 2)) [0..<n]"
    by (simp add: upt_conv_Cons map_Suc_upt [symmetric] bit_Suc del: upt_Suc)
  then show ?thesis by (simp add: bits_of_def bit_0 del: upt_Suc)
qed

lemma bits_of_numeral:
  "bits_of (numeral k) v = bits_of (pred_numeral k) (v div 2) @ [odd v]"
  by (simp add: numeral_eq_Suc bits_of_Suc)

lemma bits_of_1: "bits_of 1 v = [odd v]" "bits_of (Suc 0) v = [odd v]"
  using bits_of_Suc [of 0 v] by simp_all

lemmas bits_eval = bits_of_numeral bits_of_1 BitArray_bytes_def byte_bits_def

lemma bits_val_Nil [simp]: "bits_val [] = 0"
  by (simp add: bits_val_def)

lemma bits_val_snoc: "bits_val (bs @ [b]) = 2 * bits_val bs + of_bool b"
  by (simp add: bits_val_def)

lemma bits_val_foldl: "bits_val bs = foldl (\<lambda>a b. 2 * a + of_bool b) 0 bs"
  by (induction bs rule: rev_induct) (simp_all add: bits_val_snoc)

lemma hd_bits_of: "0 < n \<Longrightarrow> hd (bits_of n v) = bit v (n - 1)"
  by (cases n) (simp_all add: bits_of_def hd_rev)

lemma get_uint_bits_of:
  "0 < n \<Longrightarrow> 0 \<le> v \<Longrightarrow> v < 2 ^ n \<Longrightarrow> get_uint (bits_of n v) = Inr v"
proof -
  assume a: "0 < n" "0 \<le> v" "v < 2 ^ n"
  have "bits_of n v \<noteq> []" using a(1) by (auto simp add: bits_of_def)
  then show ?thesis
    using a by (simp add: get_uint_def bits_val_bits_of take_bit_int_eq_self)
qed

lemma get_int_bits_of:
  assumes "0 < n" "- (2 ^ (n - 1)) \<le> v" "v < 2 ^ (n - 1)"
  shows "get_int (bits_of n v) = Inr v"
proof -
  obtain m where n: "n = Suc m" using assms(1) by (cases n) auto
  have ne: "bits_of n v \<noteq> []" using assms(1) by (auto simp add: bits_of_def)
  have "signed_take_bit m v = v"
    using assms(2,3) by (simp add: n signed_take_bit_int_eq_self)
  then have "v = take_bit (Suc m) v - 2 ^ Suc m * of_bool (bit v m)"
    using signed_take_bit_eq_take_bit_minus [of m v] by simp
  then show ?thesis
    using ne assms(1)
    by (auto simp add: get_int_def hd_bits_of bits_val_bits_of n)
qed

section \<open>Lemmas on the field codec\<close>

lemma unescape_plain: "CONTROL_ESCAPE_BYTE \<notin> set data \<Longrightarrow> unescape data = Inr data"
  by (simp add: unescape_def unescape_loop_no_escape)

lemma clamp_bounds:
  "(0::int) < M \<Longrightarrow> - M \<le> max (min v (M - 1)) (- M) \<and> max (min v (M - 1)) (- M) < M"
  by linarith

lemma serialize_int_constrain:
  assumes "0 < bits"
  shows "serialize_int v bits True =
           Inr (bits_of bits (max (min v (2 ^ (bits - 1) - 1)) (- (2 ^ (bits - 1)))))"
proof -
  have "(0::int) < 2 ^ (bits - 1)" by simp
  from clamp_bounds [OF this, of v] show ?thesis
    using assms unfolding serialize_int_def BitArray_int_def
    by (simp add: not_le not_less del: max_less_iff_conj min_less_iff_conj max.bounded_iff min.bounded_iff)
qed



lemma serialize_resolution_int_eq:
  assumes "resolution \<noteq> 0" and "0 < bits"
  shows "serialize_resolution_int v resolution bits =
           Inr (bits_of bits (max (min (py_int (v / resolution)) (2 ^ (bits - 1) - 1))
                                  (- (2 ^ (bits - 1)))))"
  using assms
  by (simp only: serialize_resolution_int_def py_truediv_def bindE_def if_False sum.case
        serialize_int_constrain)





lemma get_uint_bits_of_uint16:
  "get_uint (bits_of 16 (uint (w :: 16 word))) = Inr (uint w)"
  using uint_bounded [of w] by (intro get_uint_bits_of) simp_all

lemma get_int_bits_of_uint16:
  "get_int (bits_of 16 (uint (w :: 16 word))) = Inr (sint w)"
proof -
  have ne: "bits_of 16 (uint w) \<noteq> []" by (simp add: bits_of_def)
  have "sint w = signed_take_bit 15 (uint w)" by (simp add: sint_uint)
  also have "\<dots> = take_bit 16 (uint w) - 2 ^ 16 * of_bool (bit (uint w) 15)"
    using signed_take_bit_eq_take_bit_minus [of 15 "uint w"] by simp
  finally have "sint w = uint w - 2 ^ 16 * of_bool (bit (uint w) 15)" by simp
  then show ?thesis
    using ne by (simp add: get_int_def hd_bits_of bits_val_bits_of)
qed

lemma serialize_uint_constrain_fits:
  "0 < bits \<Longrightarrow> 0 \<le> v \<Longrightarrow> v < 2 ^ bits \<Longrightarrow> serialize_uint v bits True = Inr (bits_of bits v)"
  by (simp add: serialize_uint_def BitArray_uint_def min_def)

section \<open>Claims about the checksum\<close>

text \<open>
  Claim C2, as stated, fails: \<^verbatim>\<open>compute_crc\<close> is not the recurrence of the
  specification, which puts the data byte into the table index. On the one-byte buffer
  \<open>0x01\<close> the code returns the bytes \<open>01 00\<close>, the specification's recurrence gives
  \<open>21 10\<close>.
\<close>

theorem compute_crc_spec_counterexample:
  "compute_crc [0x01] \<noteq> Inr (little_endian_16 (foldl spec_crc_step 0 [0x01]))
   \<and> compute_crc [0x01] = Inr [0x01, 0x00]
   \<and> little_endian_16 (foldl spec_crc_step 0 [0x01]) = [0x21, 0x10]"
  by (simp add: crc_eval)

text \<open>
  Claim C2, amended: for every byte string, \<^verbatim>\<open>compute_crc\<close> never fails and returns,
  low byte first, the 16-bit value of the recurrence that starts from \<open>0x0000\<close> and
  for each byte takes \<open>table[crc >> 8] XOR ((crc << 8) & 0xFFFF) XOR byte\<close>, where
  the 256-entry table of the code holds, at index \<open>i\<close>, the remainder of \<open>i << 8\<close> after
  eight shift steps for the polynomial \<open>0x1021\<close> without reflection.
\<close>

theorem compute_crc_recurrence:
  "compute_crc data = Inr (little_endian_16 (foldl gdl90_crc_step 0 data))
   \<and> crc_table = map (\<lambda>i. uint (crc16_entry (word_of_nat i))) [0..<256]"
proof
  show "compute_crc data = Inr (little_endian_16 (foldl gdl90_crc_step 0 data))"
    by (rule compute_crc_word)
  show "crc_table = map (\<lambda>i. uint (crc16_entry (word_of_nat i))) [0..<256]"
    by (rule nth_equalityI) (simp_all add: crc_table_nth)
qed

section \<open>Claim about the flag bytes\<close>

text \<open>
  Claim C3 asks for \<^verbatim>\<open>MissingFlagBytes\<close> whenever the first byte or the last byte is
  not \<open>0x7E\<close>. The guard of \<^verbatim>\<open>deconstruct\<close> joins the two tests with \<^verbatim>\<open>and\<close>, so a
  buffer with only one flag byte passes it: on \<open>00 00 00 00 7E\<close> the function strips the
  first and last byte, accepts the checksum \<open>00 00\<close> of the payload \<open>00\<close> and returns
  message id \<open>0\<close> with an empty body.
\<close>

theorem deconstruct_missing_first_flag:
  "deconstruct [0x00, 0x00, 0x00, 0x00, 0x7E] True = Inr ([0], [])"
proof -
  have u: "unescape [0x00, 0x00, 0x00] = Inr [0x00, 0x00, 0x00]"
    by (rule unescape_plain) (simp add: CONTROL_ESCAPE_BYTE_def)
  have c: "check_crc [0x00] [0x00, 0x00] = Inr ()"
    by (simp add: check_crc_def bindE_def crc_eval)
  show ?thesis
    by (simp add: deconstruct_def FLAG_BYTE_def bindE_def u c FOREFLIGHT_MESSAGE_ID_def
          BitArray_bytes_def)
qed

section \<open>Claim about scaled signed integers\<close>




section \<open>Callsign\<close>

lemma isalnum_char_ascii: "isalnum_char c \<Longrightarrow> (of_char c :: nat) < 128"
  by (auto simp add: isalnum_char_def Let_def)

lemma length_encode: "length (map of_char s :: byte list) = length s"
  by simp

lemma take_pad:
  "take n (xs @ replicate (n - length xs) x) = take n (xs @ replicate n x)"
  by (cases "length xs \<le> n") simp_all

lemma serialize_str_ascii_64:
  assumes "list_all (\<lambda>c. (of_char c :: nat) < 128) (take 8 v)"
  shows "serialize_str v 64 ascii =
           Inr (BitArray_bytes (take 8 (map of_char v @ replicate 8 0x20)))"
proof -
  let ?v2 = "take 8 (ljust v 8)"
  have v2: "?v2 = take 8 (v @ replicate 8 (CHR '' ''))"
    by (simp add: ljust_def take_pad del: take_append)
  have len: "length ?v2 = 8" by (simp add: ljust_def)
  have asc: "is_ascii ?v2"
    using assms by (auto simp add: is_ascii_def ljust_def list_all_iff dest: in_set_takeD)
  have bytes: "(map of_char ?v2 :: byte list) = take 8 (map of_char v @ replicate 8 0x20)"
  proof -
    have "(map of_char (v @ replicate 8 (CHR '' '')) :: byte list)
            = map of_char v @ replicate 8 0x20" by simp
    then show ?thesis by (simp only: v2 take_map [symmetric])
  qed
  have l8: "length (map of_char ?v2 :: byte list) = 8" using len by simp
  show ?thesis
    unfolding serialize_str_def Let_def
    using asc l8
    by (simp add: encode_ascii_def bindE_def BitArray_bytes_length_def bytes [symmetric]
             del: take_append)
qed

lemma serialize_str_empty_64:
  "serialize_str [] 64 ascii = Inr (BitArray_bytes (replicate 8 0x20))"
  using serialize_str_ascii_64 [of "[]"] by simp

lemma serialize_callsign_eq:
  "serialize_callsign self =
     (case callsign self of
        None \<Rightarrow> Inr (BitArray_bytes (replicate 8 0x20))
      | Some c \<Rightarrow>
          if strip c = [] then Inr (BitArray_bytes (replicate 8 0x20))
          else if \<not> list_all isalnum_char (take 64 (upper (strip c))) then Inl InvalidCallsign
          else Inr (BitArray_bytes (take 8 (map of_char (upper (strip c)) @ replicate 8 0x20))))"
proof (cases "callsign self")
  case None
  then show ?thesis
    by (simp add: serialize_callsign_def CALLSIGN_BITS_def serialize_str_empty_64)
next
  case (Some c)
  show ?thesis
  proof (cases "strip c = []")
    case True
    then show ?thesis
      using Some by (simp add: serialize_callsign_def CALLSIGN_BITS_def serialize_str_empty_64)
  next
    case False
    let ?t = "take 64 (upper (strip c))"
    have ne: "?t \<noteq> []" using False by (simp add: upper_def)
    show ?thesis
    proof (cases "list_all isalnum_char ?t")
      case True
      then have "list_all (\<lambda>c. (of_char c :: nat) < 128) (take 8 ?t)"
        using set_take_subset_set_take [of 8 64 "upper (strip c)"]
        by (auto simp add: list_all_iff dest: isalnum_char_ascii)
      then have "serialize_str ?t 64 ascii =
                   Inr (BitArray_bytes (take 8 (map of_char ?t @ replicate 8 0x20)))"
        by (rule serialize_str_ascii_64)
      moreover have "take 8 (map of_char ?t @ replicate 8 (0x20 :: byte))
                       = take 8 (map of_char (upper (strip c)) @ replicate 8 0x20)"
        by (simp add: take_map min_def)
      ultimately show ?thesis
        using Some False True ne
        by (simp add: serialize_callsign_def CALLSIGN_BITS_def isalnum_def Let_def
                 del: take_append)
    next
      case nalnum: False
      then show ?thesis
        using Some False ne
        by (simp add: serialize_callsign_def CALLSIGN_BITS_def isalnum_def Let_def)
    qed
  qed
qed


section \<open>Claim about the callsign\<close>




section \<open>Fields of the Traffic Report: what is encoded can be decoded\<close>

lemma bindE_Inr_iff: "bindE m f = Inr y \<longleftrightarrow> (\<exists>x. m = Inr x \<and> f x = Inr y)"
  by (cases m) (simp_all add: bindE_def)

lemma bindE_Inr [simp]: "bindE (Inr x) f = f x"
  by (simp add: bindE_def)

lemma pop_bits_append: "length a = n \<Longrightarrow> pop_bits (a @ r) n = (a, r)"
  by (simp add: pop_bits_def)

lemma serialize_uint_True:
  assumes "0 < bits"
  shows "serialize_uint v bits True =
           (if v < 0 then Inl UnexpectedNegative else Inr (bits_of bits (min v (2 ^ bits - 1))))"
proof -
  have "(0::int) < 2 ^ bits" by simp
  then have "\<not> 2 ^ bits \<le> min v (2 ^ bits - 1)" "0 \<le> v \<Longrightarrow> \<not> min v (2 ^ bits - 1) < 0"
    by linarith+
  then show ?thesis using assms by (simp add: serialize_uint_def BitArray_uint_def)
qed

lemma serialize_uint_False:
  assumes "0 < bits"
  shows "serialize_uint v bits False =
           (if v < 0 then Inl UnexpectedNegative
            else if v > 2 ^ bits - 1 then Inl BadIntegerSize else Inr (bits_of bits v))"
  using assms by (auto simp add: serialize_uint_def BitArray_uint_def)

lemma serialize_uint_length:
  "0 < bits \<Longrightarrow> serialize_uint v bits c = Inr b \<Longrightarrow> length b = bits"
  by (cases c) (auto simp add: serialize_uint_True serialize_uint_False split: if_splits)

lemma get_uint_nonempty: "b \<noteq> [] \<Longrightarrow> get_uint b = Inr (bits_val b)"
  by (simp add: get_uint_def)

lemma get_int_nonempty: "b \<noteq> [] \<Longrightarrow> \<exists>i. get_int b = Inr i"
  by (simp add: get_int_def)

lemma nonempty_of_length: "length b = n \<Longrightarrow> 0 < n \<Longrightarrow> b \<noteq> []"
  by auto

lemma serialize_enum_roundtrip:
  assumes "0 < bits" "0 \<le> v" "v < 2 ^ bits"
  shows "serialize_enum v bits = Inr (bits_of bits v)"
    and "deserialize_enum (bits_of bits v) f = f v"
  using assms
  by (simp_all add: serialize_enum_def serialize_uint_True deserialize_enum_def
        deserialize_uint_def get_uint_bits_of min_def)

lemma AddressType_roundtrip: "AddressType_of_int (AddressType_value x) = Inr x"
  by (cases x) (simp_all add: AddressType_of_int_def)

lemma AddressType_range: "0 \<le> AddressType_value x \<and> AddressType_value x < 2 ^ 4"
  by (cases x) simp_all

lemma TrackType_roundtrip: "TrackType_of_int (TrackType_value x) = Inr x"
  by (cases x) (simp_all add: TrackType_of_int_def)

lemma TrackType_range: "0 \<le> TrackType_value x \<and> TrackType_value x < 2 ^ 2"
  by (cases x) simp_all

lemma Integrity_roundtrip: "Integrity_of_int (Integrity_value x) = Inr x"
  by (cases x) (simp_all add: Integrity_of_int_def)

lemma Integrity_range: "0 \<le> Integrity_value x \<and> Integrity_value x < 2 ^ 4"
  by (cases x) simp_all

lemma Accuracy_roundtrip: "Accuracy_of_int (Accuracy_value x) = Inr x"
  by (cases x) (simp_all add: Accuracy_of_int_def)

lemma Accuracy_range: "0 \<le> Accuracy_value x \<and> Accuracy_value x < 2 ^ 4"
  by (cases x) simp_all

lemma EmitterCategory_roundtrip: "EmitterCategory_of_int (EmitterCategory_value x) = Inr x"
  by (cases x) (simp_all add: EmitterCategory_of_int_def)

lemma EmitterCategory_range: "0 \<le> EmitterCategory_value x \<and> EmitterCategory_value x < 2 ^ 8"
  by (cases x) simp_all

lemma EmergencyPriorityCode_roundtrip:
  "EmergencyPriorityCode_of_int (EmergencyPriorityCode_value x) = Inr x"
  by (cases x) (simp_all add: EmergencyPriorityCode_of_int_def)

lemma EmergencyPriorityCode_range:
  "0 \<le> EmergencyPriorityCode_value x \<and> EmergencyPriorityCode_value x < 2 ^ 4"
  by (cases x) simp_all

lemma bits_of_zero: "bits_of n 0 = replicate n False"
  by (rule nth_equalityI) (simp_all add: bits_of_def rev_nth)

lemma py_int_zero [simp]: "py_int 0 = 0"
  by (simp add: py_int_def)

lemma serialize_resolution_uint_length:
  "0 < bits \<Longrightarrow> serialize_resolution_uint v resolution bits = Inr b \<Longrightarrow> length b = bits"
  by (auto simp add: serialize_resolution_uint_def bindE_Inr_iff dest: serialize_uint_length)

lemma serialize_resolution_int_length:
  "0 < bits \<Longrightarrow> serialize_resolution_int v resolution bits = Inr b \<Longrightarrow> length b = bits"
  by (auto simp add: serialize_resolution_int_def bindE_Inr_iff serialize_int_constrain)

lemma serialize_bool_length: "serialize_bool v = Inr b \<Longrightarrow> length b = 1"
  by (auto simp add: serialize_bool_def dest: serialize_uint_length [rotated])

lemma deserialize_bool_ok: "length b = 1 \<Longrightarrow> \<exists>v. deserialize_bool b = Inr v"
  by (simp add: deserialize_bool_def get_bool_def)

lemma deserialize_uint_ok: "b \<noteq> [] \<Longrightarrow> deserialize_uint b = Inr (bits_val b)"
  by (simp add: deserialize_uint_def get_uint_nonempty)

lemma deserialize_resolution_uint_ok:
  "b \<noteq> [] \<Longrightarrow> \<exists>v. deserialize_resolution_uint b resolution = Inr v"
  by (simp add: deserialize_resolution_uint_def deserialize_uint_ok)

lemma deserialize_resolution_float_ok:
  "b \<noteq> [] \<Longrightarrow> \<exists>v. deserialize_resolution_float b resolution = Inr v"
  using get_int_nonempty [of b]
  by (auto simp add: deserialize_resolution_float_def deserialize_int_def)

lemma deserialize_resolution_int_ok:
  "b \<noteq> [] \<Longrightarrow> \<exists>v. deserialize_resolution_int b resolution = Inr v"
  using deserialize_resolution_float_ok [of b resolution]
  by (auto simp add: deserialize_resolution_int_def)

subsection \<open>Field by field\<close>

lemma traffic_alert_field:
  assumes "serialize_traffic_alert self = Inr b"
  shows "length b = TRAFFIC_ALERT_BITS \<and> deserialize_traffic_alert b = Inr False"
proof -
  have "b = bits_of 4 0 \<or> b = bits_of 4 1"
    using assms
    by (auto simp add: serialize_traffic_alert_def TRAFFIC_ALERT_BITS_def serialize_uint_True
          split: if_splits)
  then show ?thesis
    by (auto simp add: TRAFFIC_ALERT_BITS_def deserialize_traffic_alert_def list_index_def
          bits_eval)
qed

lemma address_type_field:
  assumes "serialize_address_type self = Inr b"
  shows "length b = ADDRESS_TYPE_BITS \<and> deserialize_address_type b = Inr (address_type self)"
  using assms AddressType_range [of "address_type self"]
  by (auto simp add: serialize_address_type_def deserialize_address_type_def
        ADDRESS_TYPE_BITS_def serialize_enum_roundtrip AddressType_roundtrip)

lemma address_field:
  assumes "serialize_address self = Inr b"
  shows "length b = ADDRESS_BITS \<and> deserialize_address b = Inr (address self)"
  using assms
  by (auto simp add: serialize_address_def deserialize_address_def ADDRESS_BITS_def
        serialize_uint_False deserialize_uint_def get_uint_bits_of split: if_splits)

lemma LATLON_RESOLUTION_nonzero: "LATLON_RESOLUTION \<noteq> 0"
  by (simp add: LATLON_RESOLUTION_def)

lemma latlon_zero:
  "serialize_resolution_float 0 LATLON_RESOLUTION 24 = Inr (replicate 24 False)"
  "deserialize_resolution_float (replicate 24 False) LATLON_RESOLUTION = Inr 0"
proof -
  show "serialize_resolution_float 0 LATLON_RESOLUTION 24 = Inr (replicate 24 False)"
    using serialize_resolution_int_eq [OF LATLON_RESOLUTION_nonzero, of 24 0]
    by (simp add: serialize_resolution_float_def bits_of_zero)
  have "get_int (bits_of 24 0) = Inr 0"
    by (rule get_int_bits_of) simp_all
  then show "deserialize_resolution_float (replicate 24 False) LATLON_RESOLUTION = Inr 0"
    by (simp add: deserialize_resolution_float_def deserialize_int_def bits_of_zero)
qed

lemma latitude_field:
  assumes "serialize_latitude self = Inr b"
  shows "length b = LATITUDE_BITS
         \<and> (\<exists>v. deserialize_latitude b = Inr v \<and> (integrity self = Integrity_unknown \<longrightarrow> v = 0))
         \<and> (integrity self = Integrity_unknown \<longrightarrow> b = replicate 24 False)"
proof (cases "integrity self = Integrity_unknown")
  case True
  then have "b = replicate 24 False"
    using assms by (simp add: serialize_latitude_def LATITUDE_BITS_def latlon_zero)
  then show ?thesis
    by (simp add: LATITUDE_BITS_def deserialize_latitude_def latlon_zero)
next
  case False
  have len: "length b = 24"
    using assms
    by (auto simp add: serialize_latitude_def LATITUDE_BITS_def serialize_resolution_float_def
          Let_def dest: serialize_resolution_int_length [rotated] split: if_splits)
  then have "b \<noteq> []" by auto
  then show ?thesis
    using False len deserialize_resolution_float_ok [of b LATLON_RESOLUTION]
    by (simp add: LATITUDE_BITS_def deserialize_latitude_def)
qed

lemma longitude_field:
  assumes "serialize_longitude self = Inr b"
  shows "length b = LONGITUDE_BITS
         \<and> (\<exists>v. deserialize_longitude b = Inr v \<and> (integrity self = Integrity_unknown \<longrightarrow> v = 0))
         \<and> (integrity self = Integrity_unknown \<longrightarrow> b = replicate 24 False)"
proof (cases "integrity self = Integrity_unknown")
  case True
  then have "b = replicate 24 False"
    using assms by (simp add: serialize_longitude_def LONGITUDE_BITS_def latlon_zero)
  then show ?thesis
    by (simp add: LONGITUDE_BITS_def deserialize_longitude_def latlon_zero)
next
  case False
  have len: "length b = 24"
    using assms
    by (auto simp add: serialize_longitude_def LONGITUDE_BITS_def serialize_resolution_float_def
          Let_def dest: serialize_resolution_int_length [rotated] split: if_splits)
  then have "b \<noteq> []" by auto
  then show ?thesis
    using False len deserialize_resolution_float_ok [of b LATLON_RESOLUTION]
    by (simp add: LONGITUDE_BITS_def deserialize_longitude_def)
qed

lemma pressure_altitude_field:
  assumes "serialize_pressure_altitude self = Inr b"
  shows "length b = PRESSURE_ALTITUDE_BITS \<and> (\<exists>v. deserialize_pressure_altitude b = Inr v)"
proof -
  have len: "length b = 12"
    using assms
    by (auto simp add: serialize_pressure_altitude_def PRESSURE_ALTITUDE_BITS_def
          serialize_resolution_offset_uint_def
          dest: serialize_uint_length [rotated] serialize_resolution_uint_length [rotated]
          split: option.splits)
  then have ne: "b \<noteq> []" by auto
  show ?thesis
    using len ne deserialize_resolution_uint_ok [OF ne, of PRESSURE_ALTITUDE_RESOLUTION]
    by (auto simp add: PRESSURE_ALTITUDE_BITS_def deserialize_pressure_altitude_def
          get_uint_nonempty deserialize_resolution_offset_uint_def)
qed

lemma airborne_field:
  assumes "serialize_airborne self = Inr b"
  shows "length b = 1 \<and> (\<exists>v. deserialize_airborne b = Inr v)"
  using assms serialize_bool_length [of "airborne self" b] deserialize_bool_ok [of b]
  by (simp add: serialize_airborne_def deserialize_airborne_def)

lemma report_extrapolated_field:
  assumes "serialize_report_extrapolated self = Inr b"
  shows "length b = 1 \<and> (\<exists>v. deserialize_report_extrapolated b = Inr v)"
  using assms serialize_bool_length [of "report_extrapolated self" b] deserialize_bool_ok [of b]
  by (simp add: serialize_report_extrapolated_def deserialize_report_extrapolated_def)

lemma track_type_field:
  assumes "serialize_track_type self = Inr b"
  shows "length b = TRACK_TYPE_BITS \<and> deserialize_track_type b = Inr (track_type self)"
  using assms TrackType_range [of "track_type self"]
  by (auto simp add: serialize_track_type_def deserialize_track_type_def
        TRACK_TYPE_BITS_def serialize_enum_roundtrip TrackType_roundtrip)

lemma integrity_field:
  assumes "serialize_integrity self = Inr b"
  shows "length b = INTEGRITY_BITS \<and> deserialize_integrity b = Inr (integrity self)"
  using assms Integrity_range [of "integrity self"]
  by (auto simp add: serialize_integrity_def deserialize_integrity_def
        INTEGRITY_BITS_def serialize_enum_roundtrip Integrity_roundtrip)

lemma accuracy_field:
  assumes "serialize_accuracy self = Inr b"
  shows "length b = ACCURACY_BITS \<and> deserialize_accuracy b = Inr (accuracy self)"
  using assms Accuracy_range [of "accuracy self"]
  by (auto simp add: serialize_accuracy_def deserialize_accuracy_def
        ACCURACY_BITS_def serialize_enum_roundtrip Accuracy_roundtrip)

lemma horizontal_velocity_field:
  assumes "serialize_horizontal_velocity self = Inr b"
  shows "length b = HORIZONTAL_VELOCITY_BITS \<and> (\<exists>v. deserialize_horizontal_velocity b = Inr v)"
proof -
  have len: "length b = 12"
    using assms
    by (auto simp add: serialize_horizontal_velocity_def HORIZONTAL_VELOCITY_BITS_def
          dest: serialize_uint_length [rotated] split: option.splits)
  then have ne: "b \<noteq> []" by auto
  show ?thesis
    using len ne
    by (auto simp add: HORIZONTAL_VELOCITY_BITS_def deserialize_horizontal_velocity_def
          get_uint_nonempty deserialize_uint_ok)
qed

lemma vertical_velocity_field:
  assumes "serialize_vertical_velocity self = Inr b"
  shows "length b = VERTICAL_VELOCITY_BITS \<and> (\<exists>v. deserialize_vertical_velocity b = Inr v)"
proof -
  have len: "length b = 12"
    using assms
    by (auto simp add: serialize_vertical_velocity_def VERTICAL_VELOCITY_BITS_def Let_def
          dest: serialize_uint_length [rotated] serialize_resolution_int_length [rotated]
          split: option.splits)
  then have ne: "b \<noteq> []" by auto
  show ?thesis
    using len ne deserialize_resolution_int_ok [OF ne, of VERTICAL_VELOCITY_RESOLUTION]
    by (auto simp add: VERTICAL_VELOCITY_BITS_def deserialize_vertical_velocity_def
          get_uint_nonempty)
qed

lemma track_field:
  assumes "serialize_track self = Inr b"
  shows "length b = TRACK_BITS \<and> (\<exists>v. deserialize_track b = Inr v)"
proof -
  have len: "length b = 8"
    using assms
    by (auto simp add: serialize_track_def TRACK_BITS_def
          dest: serialize_resolution_uint_length [rotated])
  then have ne: "b \<noteq> []" by auto
  show ?thesis
    using len deserialize_resolution_uint_ok [OF ne, of TRACK_RESOLUTION]
    by (simp add: TRACK_BITS_def deserialize_track_def)
qed

lemma emitter_category_field:
  assumes "serialize_emitter_category self = Inr b"
  shows "length b = EMITTER_CATEGORY_BITS
         \<and> deserialize_emitter_category b = Inr (emitter_category self)"
  using assms EmitterCategory_range [of "emitter_category self"]
  by (auto simp add: serialize_emitter_category_def deserialize_emitter_category_def
        EMITTER_CATEGORY_BITS_def serialize_enum_roundtrip EmitterCategory_roundtrip)

lemma emergency_priority_code_field:
  assumes "serialize_emergency_priority_code self = Inr b"
  shows "length b = EMERGENCY_PRIORITY_CODE_BITS
         \<and> deserialize_emergency_priority_code b = Inr (emergency_priority_code self)"
  using assms EmergencyPriorityCode_range [of "emergency_priority_code self"]
  by (auto simp add: serialize_emergency_priority_code_def
        deserialize_emergency_priority_code_def EMERGENCY_PRIORITY_CODE_BITS_def
        serialize_enum_roundtrip EmergencyPriorityCode_roundtrip)

lemma of_char_byte_ascii: "(of_char c :: nat) < 128 \<Longrightarrow> (of_char c :: byte) < 128"
proof -
  assume a: "(of_char c :: nat) < 128"
  have "(of_char c :: byte) = of_nat (of_char c)" by (simp only: of_nat_of_char)
  moreover have "unat (of_nat (of_char c :: nat) :: byte) = of_char c"
    using a by (simp add: unat_of_nat)
  ultimately have "unat (of_char c :: byte) < 128" using a by simp
  then show ?thesis by (simp add: word_less_nat_alt)
qed

lemma callsign_field:
  assumes "serialize_callsign self = Inr b"
  shows "length b = CALLSIGN_BITS \<and> (\<exists>v. deserialize_callsign b = Inr v)"
proof -
  have "\<exists>bs. b = BitArray_bytes bs \<and> length bs = 8 \<and> list_all (\<lambda>x. x < 128) bs"
  proof (cases "callsign self")
    case None
    then have "b = BitArray_bytes (replicate 8 0x20)"
      using assms by (simp add: serialize_callsign_eq)
    then show ?thesis by (auto simp add: list_all_iff)
  next
    case (Some c)
    show ?thesis
    proof (cases "strip c = []")
      case True
      then have "b = BitArray_bytes (replicate 8 0x20)"
        using assms Some by (simp add: serialize_callsign_eq)
      then show ?thesis by (auto simp add: list_all_iff)
    next
      case False
      let ?u = "upper (strip c)"
      let ?bs = "take 8 (map of_char ?u @ replicate 8 (0x20 :: byte))"
      from assms Some False
      have alnum: "list_all isalnum_char (take 64 ?u)" and b: "b = BitArray_bytes ?bs"
        by (auto simp add: serialize_callsign_eq split: if_splits)
      have "\<And>c. c \<in> set (take 8 ?u) \<Longrightarrow> (of_char c :: byte) < 128"
        using alnum set_take_subset_set_take [of 8 64 ?u]
        by (auto simp add: list_all_iff intro!: of_char_byte_ascii isalnum_char_ascii)
      then have "\<forall>x \<in> set (take 8 (map of_char ?u :: byte list)). x < 128"
        by (auto simp add: take_map)
      moreover have "set ?bs \<subseteq> set (take 8 (map of_char ?u :: byte list)) \<union> {0x20}"
        by (auto dest: in_set_takeD)
      ultimately have "list_all (\<lambda>x. x < 128) ?bs"
        by (auto simp add: list_all_iff simp del: take_append)
      moreover have "length ?bs = 8" by simp
      ultimately show ?thesis using b by blast
    qed
  qed
  then obtain bs where bs: "b = BitArray_bytes bs" "length bs = 8" "list_all (\<lambda>x. x < 128) bs"
    by blast
  then show ?thesis
    by (simp add: CALLSIGN_BITS_def deserialize_callsign_def deserialize_str_ascii_def
          decode_ascii_def)
qed

subsection \<open>The whole body\<close>

lemma pop_bits_all: "length a = n \<Longrightarrow> pop_bits a n = (a, [])"
  by (simp add: pop_bits_def)

lemma reserved_field: "BitArray_uint 0 RESERVED_BITS = Inr b \<Longrightarrow> length b = RESERVED_BITS"
  by (auto simp add: BitArray_uint_def RESERVED_BITS_def split: if_splits)

lemma traffic_report_body_roundtrip:
  assumes "traffic_report_all_data self = Inr data"
  shows "length data = 216
         \<and> (\<exists>r. traffic_report_deserialize_bits data = Inr r \<and> traffic_alert r = False
                \<and> (integrity self = Integrity_unknown \<longrightarrow> latitude r = 0 \<and> longitude r = 0))
         \<and> (integrity self = Integrity_unknown \<longrightarrow>
               take 24 (drop 32 data) = replicate 24 False
               \<and> take 24 (drop 56 data) = replicate 24 False)"
proof -
  from assms obtain b1 b2 b3 b4 b5 b6 b7 b8 b9 b10 b11 b12 b13 b14 b15 b16 b17 b18 where
    s: "serialize_traffic_alert self = Inr b1" "serialize_address_type self = Inr b2"
       "serialize_address self = Inr b3" "serialize_latitude self = Inr b4"
       "serialize_longitude self = Inr b5" "serialize_pressure_altitude self = Inr b6"
       "serialize_airborne self = Inr b7" "serialize_report_extrapolated self = Inr b8"
       "serialize_track_type self = Inr b9" "serialize_integrity self = Inr b10"
       "serialize_accuracy self = Inr b11" "serialize_horizontal_velocity self = Inr b12"
       "serialize_vertical_velocity self = Inr b13" "serialize_track self = Inr b14"
       "serialize_emitter_category self = Inr b15" "serialize_callsign self = Inr b16"
       "serialize_emergency_priority_code self = Inr b17"
       "BitArray_uint 0 RESERVED_BITS = Inr b18"
    and data: "data = b1 @ b2 @ b3 @ b4 @ b5 @ b6 @ b7 @ b8 @ b9 @ b10 @ b11 @ b12 @ b13 @ b14
                        @ b15 @ b16 @ b17 @ b18"
    unfolding traffic_report_all_data_def bindE_Inr_iff by blast
  note f1 = traffic_alert_field [OF s(1)]
  note f2 = address_type_field [OF s(2)]
  note f3 = address_field [OF s(3)]
  note f4 = latitude_field [OF s(4)]
  note f5 = longitude_field [OF s(5)]
  note f6 = pressure_altitude_field [OF s(6)]
  note f7 = airborne_field [OF s(7)]
  note f8 = report_extrapolated_field [OF s(8)]
  note f9 = track_type_field [OF s(9)]
  note f10 = integrity_field [OF s(10)]
  note f11 = accuracy_field [OF s(11)]
  note f12 = horizontal_velocity_field [OF s(12)]
  note f13 = vertical_velocity_field [OF s(13)]
  note f14 = track_field [OF s(14)]
  note f15 = emitter_category_field [OF s(15)]
  note f16 = callsign_field [OF s(16)]
  note f17 = emergency_priority_code_field [OF s(17)]
  note f18 = reserved_field [OF s(18)]
  from f4 obtain v4 where v4: "deserialize_latitude b4 = Inr v4"
      "integrity self = Integrity_unknown \<longrightarrow> v4 = 0" by blast
  from f5 obtain v5 where v5: "deserialize_longitude b5 = Inr v5"
      "integrity self = Integrity_unknown \<longrightarrow> v5 = 0" by blast
  from f6 obtain v6 where v6: "deserialize_pressure_altitude b6 = Inr v6" by blast
  from f7 obtain v7 where v7: "deserialize_airborne b7 = Inr v7" by blast
  from f8 obtain v8 where v8: "deserialize_report_extrapolated b8 = Inr v8" by blast
  from f12 obtain v12 where v12: "deserialize_horizontal_velocity b12 = Inr v12" by blast
  from f13 obtain v13 where v13: "deserialize_vertical_velocity b13 = Inr v13" by blast
  from f14 obtain v14 where v14: "deserialize_track b14 = Inr v14" by blast
  from f16 obtain v16 where v16: "deserialize_callsign b16 = Inr v16" by blast
  note lens = f1 [THEN conjunct1] f2 [THEN conjunct1] f3 [THEN conjunct1] f4 [THEN conjunct1]
    f5 [THEN conjunct1] f6 [THEN conjunct1] f7 [THEN conjunct1] f8 [THEN conjunct1]
    f9 [THEN conjunct1] f10 [THEN conjunct1] f11 [THEN conjunct1] f12 [THEN conjunct1]
    f13 [THEN conjunct1] f14 [THEN conjunct1] f15 [THEN conjunct1] f16 [THEN conjunct1]
    f17 [THEN conjunct1] f18
  note decs = f1 [THEN conjunct2] f2 [THEN conjunct2] f3 [THEN conjunct2] v4(1) v5(1) v6 v7 v8
    f9 [THEN conjunct2] f10 [THEN conjunct2] f11 [THEN conjunct2] v12 v13 v14
    f15 [THEN conjunct2] v16 f17 [THEN conjunct2]
  have dec: "traffic_report_deserialize_bits data =
     Inr \<lparr>traffic_alert = False, address_type = address_type self, address = address self,
          latitude = v4, longitude = v5, pressure_altitude = v6,
          track_type = track_type self, report_extrapolated = v8, airborne = v7,
          integrity = integrity self, accuracy = accuracy self,
          horizontal_velocity = v12, vertical_velocity = v13, track = v14,
          emitter_category = emitter_category self, callsign = Some v16,
          emergency_priority_code = emergency_priority_code self\<rparr>"
    unfolding traffic_report_deserialize_bits_def data
    by (simp add: pop_bits_append pop_bits_all lens decs)
  have len: "length data = 216"
    using lens
    by (simp add: data TRAFFIC_ALERT_BITS_def ADDRESS_TYPE_BITS_def ADDRESS_BITS_def
          LATITUDE_BITS_def LONGITUDE_BITS_def PRESSURE_ALTITUDE_BITS_def TRACK_TYPE_BITS_def
          INTEGRITY_BITS_def ACCURACY_BITS_def HORIZONTAL_VELOCITY_BITS_def
          VERTICAL_VELOCITY_BITS_def TRACK_BITS_def EMITTER_CATEGORY_BITS_def CALLSIGN_BITS_def
          EMERGENCY_PRIORITY_CODE_BITS_def RESERVED_BITS_def)
  have spans: "take 24 (drop 32 data) = b4" "take 24 (drop 56 data) = b5"
    using lens(1-5)
    by (simp_all add: data TRAFFIC_ALERT_BITS_def ADDRESS_TYPE_BITS_def ADDRESS_BITS_def
          LATITUDE_BITS_def LONGITUDE_BITS_def)
  show ?thesis
    using dec len spans v4(2) v5(2) f4 f5 by simp
qed

subsection \<open>The whole frame\<close>

lemma clean_data_build_single:
  assumes "build [i] data outgoing_lsb = Inr frame"
    and "i \<noteq> FOREFLIGHT_MESSAGE_ID" and "length data mod 8 = 0"
  shows "clean_data [i] frame (\<not> outgoing_lsb) = Inr data"
  using deconstruct_build_single [OF assms] by (simp add: clean_data_def)

lemma traffic_report_frame:
  assumes "ids = OwnshipReport_MESSAGE_IDS \<or> ids = TrafficReport_MESSAGE_IDS"
    and "traffic_report_serialize ids self outgoing_lsb = Inr frame"
  shows "\<exists>data. traffic_report_all_data self = Inr data
           \<and> frame = frame_of outgoing_lsb (map of_nat ids @ tobytes data)
           \<and> clean_data ids frame (\<not> outgoing_lsb) = Inr data"
proof -
  from assms(2) obtain data where
    d: "traffic_report_all_data self = Inr data" and b: "build ids data outgoing_lsb = Inr frame"
    unfolding traffic_report_serialize_def bindE_Inr_iff by blast
  from traffic_report_body_roundtrip [OF d] have "length data mod 8 = 0" by simp
  moreover obtain i where i: "ids = [i]" "i \<noteq> FOREFLIGHT_MESSAGE_ID"
    using assms(1)
    by (auto simp add: OwnshipReport_MESSAGE_IDS_def TrafficReport_MESSAGE_IDS_def
          FOREFLIGHT_MESSAGE_ID_def)
  ultimately have "clean_data ids frame (\<not> outgoing_lsb) = Inr data"
    using clean_data_build_single [of i data outgoing_lsb frame] b by simp
  with d build_Inr [OF b] show ?thesis by blast
qed

section \<open>Claims about the Traffic Report and the Ownship Report\<close>

text \<open>
  Claim C4: for every Traffic Report or Ownship Report whose integrity is
  \<^verbatim>\<open>Integrity.unknown\<close>, whenever serialization succeeds the body carries zero in the
  24-bit latitude span (bits 32 to 55) and in the 24-bit longitude span (bits 56 to 79),
  whatever the record's latitude and longitude, and deserializing the frame yields latitude
  \<open>0\<close> and longitude \<open>0\<close>.
\<close>

theorem unknown_integrity_zero_position:
  assumes "integrity self = Integrity_unknown"
    and "ids = OwnshipReport_MESSAGE_IDS \<or> ids = TrafficReport_MESSAGE_IDS"
    and "traffic_report_serialize ids self outgoing_lsb = Inr frame"
  shows "\<exists>data r. traffic_report_all_data self = Inr data
           \<and> frame = frame_of outgoing_lsb (map of_nat ids @ tobytes data)
           \<and> take 24 (drop 32 data) = replicate 24 False
           \<and> take 24 (drop 56 data) = replicate 24 False
           \<and> traffic_report_deserialize ids frame (\<not> outgoing_lsb) = Inr r
           \<and> latitude r = 0 \<and> longitude r = 0"
proof -
  from traffic_report_frame [OF assms(2,3)] obtain data where
    d: "traffic_report_all_data self = Inr data"
       "frame = frame_of outgoing_lsb (map of_nat ids @ tobytes data)"
       "clean_data ids frame (\<not> outgoing_lsb) = Inr data" by blast
  from traffic_report_body_roundtrip [OF d(1)] assms(1) obtain r where
    r: "traffic_report_deserialize_bits data = Inr r" "latitude r = 0" "longitude r = 0"
    and z: "take 24 (drop 32 data) = replicate 24 False"
           "take 24 (drop 56 data) = replicate 24 False" by blast
  have "traffic_report_deserialize ids frame (\<not> outgoing_lsb) = Inr r"
    by (simp add: traffic_report_deserialize_def d(3) r(1))
  with d r z show ?thesis by blast
qed

text \<open>
  Claim C1 asks for the round trip of every record; it fails for a Traffic Report or
  Ownship Report with \<^verbatim>\<open>traffic_alert = True\<close>. The encoder writes the flag as a 4-bit
  unsigned integer, so the flag is the last bit of the span; the decoder reads the first
  bit of the span, which is always zero. Whenever such a record serializes, deserializing
  the frame succeeds and returns a record with \<^verbatim>\<open>traffic_alert = False\<close>.
\<close>

theorem traffic_alert_not_restored:
  assumes "traffic_alert self"
    and "ids = OwnshipReport_MESSAGE_IDS \<or> ids = TrafficReport_MESSAGE_IDS"
    and "traffic_report_serialize ids self outgoing_lsb = Inr frame"
  shows "\<exists>r. traffic_report_deserialize ids frame (\<not> outgoing_lsb) = Inr r
             \<and> traffic_alert r = False \<and> r \<noteq> self"
proof -
  from traffic_report_frame [OF assms(2,3)] obtain data where
    d: "traffic_report_all_data self = Inr data"
       "clean_data ids frame (\<not> outgoing_lsb) = Inr data" by blast
  from traffic_report_body_roundtrip [OF d(1)] obtain r where
    r: "traffic_report_deserialize_bits data = Inr r" "traffic_alert r = False" by blast
  have "traffic_report_deserialize ids frame (\<not> outgoing_lsb) = Inr r"
    by (simp add: traffic_report_deserialize_def d(2) r(1))
  moreover have "r \<noteq> self" using r(2) assms(1) by auto
  ultimately show ?thesis using r(2) by blast
qed

lemma sample_traffic_report_all_data:
  "traffic_report_all_data sample_traffic_report =
     Inr (BitArray_bytes [0x10, 0xAB, 0x45, 0x49, 0x00, 0x00, 0x00, 0x00, 0x00, 0x00, 0x0A, 0x09,
            0x08, 0x07, 0xBF, 0xFF, 0x20, 0x01, 0x4E, 0x38, 0x32, 0x35, 0x56, 0x20, 0x20, 0x20,
            0x00])"
  by code_simp

lemma sample_traffic_report_serialize:
  "\<exists>frame. traffic_report_serialize TrafficReport_MESSAGE_IDS sample_traffic_report False
             = Inr frame"
  by (simp add: traffic_report_serialize_def sample_traffic_report_all_data
        TrafficReport_MESSAGE_IDS_def build_ok)

theorem unknown_integrity_zero_position_witness:
  "integrity sample_traffic_report = Integrity_unknown
   \<and> (\<exists>frame r.
         traffic_report_serialize TrafficReport_MESSAGE_IDS sample_traffic_report False = Inr frame
         \<and> traffic_report_deserialize TrafficReport_MESSAGE_IDS frame True = Inr r
         \<and> latitude r = 0 \<and> longitude r = 0)"
proof -
  have i: "integrity sample_traffic_report = Integrity_unknown"
    by (simp add: sample_traffic_report_def)
  from sample_traffic_report_serialize obtain frame where
    f: "traffic_report_serialize TrafficReport_MESSAGE_IDS sample_traffic_report False = Inr frame"
    by blast
  have "TrafficReport_MESSAGE_IDS = OwnshipReport_MESSAGE_IDS
          \<or> TrafficReport_MESSAGE_IDS = TrafficReport_MESSAGE_IDS" by simp
  from unknown_integrity_zero_position [OF i this f] i f show ?thesis by auto
qed

theorem traffic_alert_not_restored_witness:
  "traffic_alert sample_traffic_report
   \<and> (\<exists>frame r.
         traffic_report_serialize TrafficReport_MESSAGE_IDS sample_traffic_report False = Inr frame
         \<and> traffic_report_deserialize TrafficReport_MESSAGE_IDS frame True = Inr r
         \<and> traffic_alert r = False \<and> r \<noteq> sample_traffic_report)"
proof -
  have t: "traffic_alert sample_traffic_report"
    by (simp add: sample_traffic_report_def)
  from sample_traffic_report_serialize obtain frame where
    f: "traffic_report_serialize TrafficReport_MESSAGE_IDS sample_traffic_report False = Inr frame"
    by blast
  have "TrafficReport_MESSAGE_IDS = OwnshipReport_MESSAGE_IDS
          \<or> TrafficReport_MESSAGE_IDS = TrafficReport_MESSAGE_IDS" by simp
  from traffic_alert_not_restored [OF t this f] t f show ?thesis by auto
qed

section \<open>Claim about Height Above Terrain\<close>

lemma HeightAboveTerrain_deserialize_bits_16:
  "HeightAboveTerrain_deserialize_bits (bits_of 16 (uint (w :: 16 word)))
     = Inr \<lparr>height_above_terrain = (if w = 0x8000 then None else Some (sint w))\<rparr>"
proof -
  have "(uint w = 0x8000) = (w = 0x8000)"
    by (simp add: word_eq_iff_unsigned [where ?'a = int])
  then have "deserialize_height_above_terrain (bits_of 16 (uint w))
               = Inr (if w = 0x8000 then None else Some (sint w))"
    by (simp add: deserialize_height_above_terrain_def get_uint_bits_of_uint16 bindE_def
          HEIGHT_ABOVE_TERRAIN_INVALID_VALUE_def deserialize_int_def get_int_bits_of_uint16)
  then show ?thesis
    by (simp add: HeightAboveTerrain_deserialize_bits_def HEIGHT_ABOVE_TERRAIN_BITS_def
          pop_bits_all)
qed

text \<open>
  Claim C7: serializing a Height Above Terrain message without a value gives the body bytes
  \<open>0x80 0x00\<close>, that is the frame of the payload \<open>09 80 00\<close> (in MSB order the bytes
  \<open>7E 09 80 00 29 11 7E\<close>); deserializing a body whose 16 bits are \<open>0x8000\<close>, or a frame
  with that body, yields \<open>None\<close>, and every other 16-bit pattern is decoded as its
  two's-complement signed value.
\<close>

theorem height_above_terrain_sentinel:
  "serialize_height_above_terrain \<lparr>height_above_terrain = None\<rparr> = Inr (BitArray_bytes [0x80, 0x00])
   \<and> HeightAboveTerrain_serialize \<lparr>height_above_terrain = None\<rparr> outgoing_lsb
       = Inr (frame_of outgoing_lsb [0x09, 0x80, 0x00])
   \<and> HeightAboveTerrain_serialize \<lparr>height_above_terrain = None\<rparr> False
       = Inr [0x7E, 0x09, 0x80, 0x00, 0x29, 0x11, 0x7E]
   \<and> deserialize_height_above_terrain (bits_of 16 (uint (w :: 16 word)))
       = Inr (if w = 0x8000 then None else Some (sint w))
   \<and> HeightAboveTerrain_deserialize_bits (bits_of 16 (uint w))
       = Inr \<lparr>height_above_terrain = (if w = 0x8000 then None else Some (sint w))\<rparr>
   \<and> HeightAboveTerrain_deserialize
         (frame_of outgoing_lsb (0x09 # tobytes (bits_of 16 (uint w)))) (\<not> outgoing_lsb)
       = Inr \<lparr>height_above_terrain = (if w = 0x8000 then None else Some (sint w))\<rparr>"
proof (intro conjI)
  have b: "bits_of 16 0x8000 = BitArray_bytes [0x80, 0x00]"
    by (simp add: bits_eval)
  then show s: "serialize_height_above_terrain \<lparr>height_above_terrain = None\<rparr>
               = Inr (BitArray_bytes [0x80, 0x00])"
    by (simp add: serialize_height_above_terrain_def HEIGHT_ABOVE_TERRAIN_INVALID_VALUE_def
          HEIGHT_ABOVE_TERRAIN_BITS_def serialize_uint_constrain_fits)
  show f: "HeightAboveTerrain_serialize \<lparr>height_above_terrain = None\<rparr> outgoing_lsb
       = Inr (frame_of outgoing_lsb [0x09, 0x80, 0x00])" for outgoing_lsb
    by (simp add: HeightAboveTerrain_serialize_def s build_ok)
  show "HeightAboveTerrain_serialize \<lparr>height_above_terrain = None\<rparr> False
       = Inr [0x7E, 0x09, 0x80, 0x00, 0x29, 0x11, 0x7E]"
    by (simp add: f frame_of_def FLAG_BYTE_def CONTROL_ESCAPE_BYTE_def ESCAPE_XOR_BYTE_def
          crc_eval)
  have "(uint w = 0x8000) = (w = 0x8000)"
    by (simp add: word_eq_iff_unsigned [where ?'a = int])
  then show "deserialize_height_above_terrain (bits_of 16 (uint w))
               = Inr (if w = 0x8000 then None else Some (sint w))"
    by (simp add: deserialize_height_above_terrain_def get_uint_bits_of_uint16 bindE_def
          HEIGHT_ABOVE_TERRAIN_INVALID_VALUE_def deserialize_int_def get_int_bits_of_uint16)
  show "HeightAboveTerrain_deserialize_bits (bits_of 16 (uint w))
       = Inr \<lparr>height_above_terrain = (if w = 0x8000 then None else Some (sint w))\<rparr>"
    by (rule HeightAboveTerrain_deserialize_bits_16)
  have "deconstruct (frame_of outgoing_lsb (0x09 # tobytes (bits_of 16 (uint w)))) (\<not> outgoing_lsb)
          = Inr ([9], bits_of 16 (uint w))"
    by (simp add: deconstruct_frame_of FOREFLIGHT_MESSAGE_ID_def BitArray_bytes_tobytes)
  then show "HeightAboveTerrain_deserialize
         (frame_of outgoing_lsb (0x09 # tobytes (bits_of 16 (uint w)))) (\<not> outgoing_lsb)
       = Inr \<lparr>height_above_terrain = (if w = 0x8000 then None else Some (sint w))\<rparr>"
    by (simp add: HeightAboveTerrain_deserialize_def clean_data_def
          HeightAboveTerrain_deserialize_bits_16)
qed

end
